theory Spec2Isabelle
  imports Main
begin

section \<open>Strings\<close>

text \<open>
  JavaScript strings are modelled as \<^typ>\<open>string\<close>. The three string methods the
  sources use are \<open>toLowerCase\<close>, \<open>includes\<close> and \<open>endsWith\<close>. Lower-casing
  is the ASCII part of \<open>String.prototype.toLowerCase\<close>: the letters A to Z go to
  a to z and every other character is kept.
\<close>

definition lowerChar :: "char \<Rightarrow> char" where
  "lowerChar c =
     (case map_of (zip ''ABCDEFGHIJKLMNOPQRSTUVWXYZ'' ''abcdefghijklmnopqrstuvwxyz'') c of
        Some l \<Rightarrow> l
      | None \<Rightarrow> c)"

definition toLowerCase :: "string \<Rightarrow> string" where
  "toLowerCase s = map lowerChar s"

fun startsWith :: "string \<Rightarrow> string \<Rightarrow> bool" where
  "startsWith s [] = True"
| "startsWith [] (p # ps) = False"
| "startsWith (c # s) (p # ps) = (c = p \<and> startsWith s ps)"

text \<open>\<open>s.includes(p)\<close>: \<open>p\<close> occurs in \<open>s\<close> as a contiguous substring.\<close>

fun includes_str :: "string \<Rightarrow> string \<Rightarrow> bool" where
  "includes_str [] p = (p = [])"
| "includes_str (c # s) p = (startsWith (c # s) p \<or> includes_str s p)"

definition endsWith :: "string \<Rightarrow> string \<Rightarrow> bool" where
  "endsWith s e = startsWith (rev s) (rev e)"

section \<open>Refusal detection (scripts/cli.ts)\<close>

definition REFUSAL_PATTERNS :: "string list" where
  "REFUSAL_PATTERNS =
    [''I can't help'',
     ''I cannot help'',
     ''I'm unable to'',
     ''I am unable to'',
     ''I can't assist'',
     ''I cannot assist'',
     ''against my guidelines'',
     ''I'm not able to'',
     ''I am not able to'',
     ''I won't be able'',
     ''I will not be able'',
     ''not something I can help with'',
     ''I'm sorry, but I can'' @ [CHR 0x27, CHR ''t''],
     ''I apologize, but I cannot'',
     ''need to decline'',
     ''I should not help'',
     ''I shouldn't help'',
     ''I must decline'',
     ''cannot fulfill this request'',
     ''can't fulfill this request'']"

text \<open>
  \<open>REFUSAL_PATTERNS.some((pattern) => lowerOutput.includes(pattern.toLowerCase()))\<close>,
  with the signature list as a parameter; \<open>detectRefusal\<close> is the function of the source.
\<close>

definition detectRefusalWith :: "string list \<Rightarrow> string \<Rightarrow> bool" where
  "detectRefusalWith patterns output =
     (let lowerOutput = toLowerCase output
      in list_ex (\<lambda>pattern. includes_str lowerOutput (toLowerCase pattern)) patterns)"

definition detectRefusal :: "string \<Rightarrow> bool" where
  "detectRefusal output = detectRefusalWith REFUSAL_PATTERNS output"

section \<open>Tool harvesting (collectTools of scripts/cli.ts)\<close>

text \<open>
  The workspace is what \<open>fs.readdirSync(workingDirectory)\<close> lists: entry names, each
  with what \<open>fs.statSync\<close> says about it (a regular file with its bytes, something
  else, or an exception). The tool store maps a file name to the file kept under that
  name in the tools directory.
\<close>

datatype stat = IsFile string | NotFile | StatThrows

type_synonym dirent = "string \<times> stat"

record tool_file =
  content :: string
  mode :: nat

type_synonym store = "string \<rightharpoonup> tool_file"

definition toolExtensions :: "string list" where
  "toolExtensions = [''.sh'', ''.ts'', ''.js'', ''.py'']"

definition excludePatterns :: "string list" where
  "excludePatterns = [''.runner-'', ''node_modules'', ''.git'', ''.agentic'']"

text \<open>
  The loop of \<open>collectTools\<close>. An exception of \<open>statSync\<close> leaves the loop through
  the enclosing \<open>try\<close>: the files copied so far stay and a warning is logged (without
  the text of the exception here). \<open>0o755\<close> is 493.
\<close>

fun collectTools_loop :: "dirent list \<Rightarrow> store \<Rightarrow> string list \<Rightarrow> store \<times> string list" where
  "collectTools_loop [] st lg = (st, lg)"
| "collectTools_loop ((file, s) # files) st lg =
     (if list_ex (\<lambda>p. includes_str file p) excludePatterns then collectTools_loop files st lg
      else if list_ex (\<lambda>ext. endsWith file ext) toolExtensions then
        (case s of
           StatThrows \<Rightarrow> (st, lg @ [''Warning: Failed to collect tools''])
         | NotFile \<Rightarrow> collectTools_loop files st lg
         | IsFile bytes \<Rightarrow>
             (if st file \<noteq> None then collectTools_loop files st lg
              else collectTools_loop files
                     (st(file \<mapsto> \<lparr>content = bytes, mode = 493\<rparr>))
                     (lg @ [''Saved new tool: '' @ file])))
      else collectTools_loop files st lg)"

definition collectTools :: "dirent list \<Rightarrow> store \<Rightarrow> store \<times> string list" where
  "collectTools workspace st = collectTools_loop workspace st []"

section \<open>Running the agent (runDocker of scripts/cli.ts)\<close>

definition escapeForShell :: "string \<Rightarrow> string" where
  "escapeForShell v =
     concat (map (\<lambda>c. if c = CHR 0x27 then [CHR 0x27, CHR 0x5C, CHR 0x27, CHR 0x27] else [c]) v)"

definition DOCKER_IMAGE :: string where
  "DOCKER_IMAGE = ''agentic-tooling:latest''"

record cli_config =
  openRouterApiKey :: string
  workingDirectory :: string
  toolsDirectory :: string
  modelName :: string
  retryModelName :: string
  promptText :: string

definition dockerArgs :: "cli_config \<Rightarrow> string \<Rightarrow> string \<Rightarrow> string list" where
  "dockerArgs cfg model prompt =
     [''run'', ''--rm'',
      ''-e'', ''OPENROUTER_API_KEY='' @ openRouterApiKey cfg,
      ''-v'', workingDirectory cfg @ '':/workspace'',
      ''-v'', toolsDirectory cfg @ '':/tools:ro'',
      ''-w'', ''/workspace'',
      DOCKER_IMAGE,
      ''opencode'', ''run'', ''--model'', model, escapeForShell prompt, ''--print-logs'']"

text \<open>
  What the spawned child does is a list of events, in the order the event loop delivers
  them: data on its two pipes, the firing of the \<open>setTimeout\<close> callback, the
  \<open>close\<close> event with the exit code (\<open>null\<close> when a signal ended the child) and
  the \<open>error\<close> event.
\<close>

datatype proc_event =
    StdoutData string
  | StderrData string
  | TimerFires
  | Close "int option"
  | ProcError string

record run_result =
  exitCode :: int
  outputText :: string

text \<open>
  The state of one \<open>runDocker\<close> call: the variable \<open>output\<close>, whether the timeout is
  still pending, the \<open>SIGTERM\<close>s sent with \<open>proc.kill\<close>, the lines logged, and the
  value the promise was resolved with. Only the first \<open>resolve\<close> counts.
\<close>

record run_state =
  buf :: string
  timer_pending :: bool
  sigterms :: nat
  run_log :: "string list"
  resolved :: "run_result option"

definition resolve :: "run_result \<Rightarrow> run_state \<Rightarrow> run_state" where
  "resolve r s = (if resolved s = None then s\<lparr>resolved := Some r\<rparr> else s)"

text \<open>\<open>code || 0\<close>: \<open>null\<close> and \<open>0\<close> both give \<open>0\<close>.\<close>

definition code_or_0 :: "int option \<Rightarrow> int" where
  "code_or_0 c = (case c of None \<Rightarrow> 0 | Some n \<Rightarrow> (if n = 0 then 0 else n))"

fun run_step :: "run_state \<Rightarrow> proc_event \<Rightarrow> run_state" where
  "run_step s (StdoutData text) = s\<lparr>buf := buf s @ text\<rparr>"
| "run_step s (StderrData text) = s\<lparr>buf := buf s @ text\<rparr>"
| "run_step s TimerFires =
     (if timer_pending s
      then s\<lparr>timer_pending := False, sigterms := Suc (sigterms s),
             run_log := run_log s @ [''Docker process timed out'']\<rparr>
      else s)"
| "run_step s (Close c) =
     resolve \<lparr>exitCode = code_or_0 c, outputText = buf s\<rparr> (s\<lparr>timer_pending := False\<rparr>)"
| "run_step s (ProcError msg) =
     (let s' = s\<lparr>timer_pending := False, buf := buf s @ ''\<newline>Error: '' @ msg\<rparr>
      in resolve \<lparr>exitCode = 1, outputText = buf s'\<rparr> s')"

definition run_init :: run_state where
  "run_init = \<lparr>buf = [], timer_pending = True, sigterms = 0, run_log = [], resolved = None\<rparr>"

definition run_events :: "proc_event list \<Rightarrow> run_state" where
  "run_events evs = foldl run_step run_init evs"

text \<open>
  \<open>runDocker\<close>: the child is spawned with \<open>dockerArgs\<close>; \<open>spawn\<close> is the environment,
  which answers the \<open>n\<close>-th spawn of a job with the child's events. The result is the
  value of the promise, \<open>None\<close> when it is never resolved.
\<close>

definition runDocker ::
  "(nat \<Rightarrow> string list \<Rightarrow> proc_event list) \<Rightarrow> nat \<Rightarrow> cli_config \<Rightarrow> string \<Rightarrow> string
     \<Rightarrow> run_result option" where
  "runDocker spawn n cfg model prompt = resolved (run_events (spawn n (dockerArgs cfg model prompt)))"

section \<open>The command-line job (main of scripts/cli.ts)\<close>

record docker_env =
  inspect_ok :: bool
  dockerfile_exists :: bool
  build_ok :: bool

text \<open>\<open>ensureDockerImage\<close> returns, or ends the process with exit code 1 (\<open>False\<close>).\<close>

definition ensureDockerImage :: "docker_env \<Rightarrow> bool" where
  "ensureDockerImage d =
     (if inspect_ok d then True
      else if \<not> dockerfile_exists d then False
      else build_ok d)"

record cli_outcome =
  attempts :: "string list"
  harvested :: bool
  tools :: store
  exit_status :: "int option"

text \<open>The end of \<open>main\<close>: harvest when the last result has exit code 0, then exit with it.\<close>

definition cli_finish :: "string list \<Rightarrow> run_result \<Rightarrow> dirent list \<Rightarrow> store \<Rightarrow> cli_outcome" where
  "cli_finish ms r workspace st =
     (if exitCode r = 0
      then \<lparr>attempts = ms, harvested = True, tools = fst (collectTools workspace st),
            exit_status = Some (exitCode r)\<rparr>
      else \<lparr>attempts = ms, harvested = False, tools = st, exit_status = Some (exitCode r)\<rparr>)"

text \<open>
  \<open>attempts\<close> lists the models \<open>runDocker\<close> was called with. \<open>exit_status\<close> is
  \<open>None\<close> when an awaited run never resolves, so that \<open>main\<close> never exits.
\<close>

definition cli_main ::
  "docker_env \<Rightarrow> (nat \<Rightarrow> string list \<Rightarrow> proc_event list) \<Rightarrow> cli_config \<Rightarrow> dirent list \<Rightarrow> store
     \<Rightarrow> cli_outcome" where
  "cli_main d spawn cfg workspace st =
     (if \<not> ensureDockerImage d
      then \<lparr>attempts = [], harvested = False, tools = st, exit_status = Some 1\<rparr>
      else
        let m1 = ''openrouter/'' @ modelName cfg in
        (case runDocker spawn 0 cfg m1 (promptText cfg) of
           None \<Rightarrow> \<lparr>attempts = [m1], harvested = False, tools = st, exit_status = None\<rparr>
         | Some r1 \<Rightarrow>
             if retryModelName cfg \<noteq> [] \<and> detectRefusal (outputText r1) then
               let m2 = ''openrouter/'' @ retryModelName cfg in
               (case runDocker spawn 1 cfg m2 (promptText cfg) of
                  None \<Rightarrow> \<lparr>attempts = [m1, m2], harvested = False, tools = st, exit_status = None\<rparr>
                | Some r2 \<Rightarrow> cli_finish [m1, m2] r2 workspace st)
             else cli_finish [m1] r1 workspace st))"

text \<open>
  The two awaited runs of \<open>main\<close>, and the condition under which the second one is made:
  the image is ready, a fallback model is configured, and the primary run resolved with an
  output that matches a refusal signature.
\<close>

definition primary_run :: "(nat \<Rightarrow> string list \<Rightarrow> proc_event list) \<Rightarrow> cli_config \<Rightarrow> run_result option" where
  "primary_run spawn cfg = runDocker spawn 0 cfg (''openrouter/'' @ modelName cfg) (promptText cfg)"

definition fallback_run :: "(nat \<Rightarrow> string list \<Rightarrow> proc_event list) \<Rightarrow> cli_config \<Rightarrow> run_result option" where
  "fallback_run spawn cfg =
     runDocker spawn 1 cfg (''openrouter/'' @ retryModelName cfg) (promptText cfg)"

definition retries :: "docker_env \<Rightarrow> (nat \<Rightarrow> string list \<Rightarrow> proc_event list) \<Rightarrow> cli_config \<Rightarrow> bool" where
  "retries d spawn cfg \<longleftrightarrow>
     ensureDockerImage d \<and> retryModelName cfg \<noteq> [] \<and>
     (case primary_run spawn cfg of None \<Rightarrow> False | Some r1 \<Rightarrow> detectRefusal (outputText r1))"

text \<open>
  The event that resolves a run: the first \<open>close\<close> or \<open>error\<close> of the child.
\<close>

fun first_end :: "proc_event list \<Rightarrow> proc_event option" where
  "first_end [] = None"
| "first_end (Close c # evs) = Some (Close c)"
| "first_end (ProcError m # evs) = Some (ProcError m)"
| "first_end (e # evs) = first_end evs"

text \<open>The events of the run whose result ends the job: the fallback run when it is made.\<close>

definition cli_last_events ::
  "docker_env \<Rightarrow> (nat \<Rightarrow> string list \<Rightarrow> proc_event list) \<Rightarrow> cli_config \<Rightarrow> proc_event list" where
  "cli_last_events d spawn cfg =
     (if retries d spawn cfg
      then spawn 1 (dockerArgs cfg (''openrouter/'' @ retryModelName cfg) (promptText cfg))
      else spawn 0 (dockerArgs cfg (''openrouter/'' @ modelName cfg) (promptText cfg)))"

text \<open>A sample job: both models answer with a refusal, the fallback with exit code 1.\<close>

definition sample_docker :: docker_env where
  "sample_docker = \<lparr>inspect_ok = True, dockerfile_exists = True, build_ok = True\<rparr>"

definition sample_config :: cli_config where
  "sample_config =
     \<lparr>openRouterApiKey = ''key'', workingDirectory = ''/w'', toolsDirectory = ''/w/tools'',
      modelName = ''a/b'', retryModelName = ''c/d'', promptText = ''hi''\<rparr>"

definition refusing_spawn :: "nat \<Rightarrow> string list \<Rightarrow> proc_event list" where
  "refusing_spawn n args =
     (if n = 0 then [StdoutData ''I cannot assist'', Close (Some 0)]
      else [StdoutData ''I must decline'', Close (Some 1)])"

text \<open>
  A sample run that hits the timeout: some output, the timer fires, and the child is ended
  by the signal, so that \<open>close\<close> carries no exit code.
\<close>

definition timed_out_events :: "proc_event list" where
  "timed_out_events = [StdoutData ''working'', TimerFires, Close None]"

definition timed_out_spawn :: "nat \<Rightarrow> string list \<Rightarrow> proc_event list" where
  "timed_out_spawn n args = timed_out_events"

section \<open>The job ledger and the runner script (src/ask-agent.tsx)\<close>

record task =
  task_id :: string
  agent :: string
  prompt :: string
  startTime :: nat
  status :: string
  logFile :: string
  endTime :: "nat option"

text \<open>
  The text of \<open>.agentic-tasks.json\<close> as \<open>JSON.parse\<close> sees it: text it throws on,
  a value that is not an array, or an array. An element of the array is \<open>null\<close>, an
  object with a string \<open>id\<close> (taken with the fields of a task record), or some other
  value, whose \<open>id\<close> is \<open>undefined\<close> or no string (a number, a string, an array, an
  object of another shape). \<open>JSON.stringify(tasks, null, 2)\<close> writes an array back as it
  is. A ledger file is absent (\<open>None\<close>) or has such a text; \<open>ledger_files\<close> maps the
  path of a ledger file to its text.
\<close>

datatype ledger_entry = NullEntry | OtherEntry | TaskEntry task

datatype ledger_text = Unparseable | NotArray | TaskArray "ledger_entry list"

type_synonym ledger_file = "ledger_text option"

type_synonym ledger_files = "string \<rightharpoonup> ledger_text"

text \<open>
  What a job does that can be observed from outside, in order: writes of the ledger file,
  toasts shown to the submitting user, lines appended to the job's log, the rejection of a
  runner script that does not parse, agent runs, the harvest, and the exit of the runner
  process. Of the log the model keeps the error reports; the progress lines carry no
  decision.
\<close>

datatype obs =
    WriteLedger "ledger_entry list"
  | ToastAnimated string
  | ToastFailure string
  | ToastSuccess string
  | ScriptRejected
  | LogLine string
  | RunAgent string
  | Harvest
  | Exit int

datatype js_error = TypeError

text \<open>
  The ledger part of \<open>handleSubmit\<close>: \<open>tasks\<close> starts empty, is replaced by the parsed
  file when that parses (a parse error is caught and logged to the console only), the new
  record is pushed and the file is rewritten. \<open>push\<close> on a value that is not an array
  throws into the enclosing \<open>try\<close> of \<open>handleSubmit\<close>.
\<close>

definition createTask :: "ledger_file \<Rightarrow> task \<Rightarrow> js_error + ledger_entry list" where
  "createTask lf t =
     (case lf of
        None \<Rightarrow> Inr [TaskEntry t]
      | Some Unparseable \<Rightarrow> Inr [TaskEntry t]
      | Some NotArray \<Rightarrow> Inl TypeError
      | Some (TaskArray ts) \<Rightarrow> Inr (ts @ [TaskEntry t]))"

text \<open>
  One call of \<open>handleSubmit\<close>: the form's prompt, the preferences, whether the working
  directory exists, and the two readings of \<open>Date.now()\<close>.
\<close>

record submission =
  sub_prompt :: string
  sub_workingDirectory :: string
  sub_modelName :: string
  sub_retryModelName :: string
  sub_openRouterApiKey :: string
  sub_dir_exists :: bool
  sub_taskId :: string
  sub_startTime :: nat

record submit_result =
  sub_trace :: "obs list"
  sub_ledger :: ledger_file
  sub_started :: bool

definition logFilePath :: "submission \<Rightarrow> string" where
  "logFilePath v = sub_workingDirectory v @ ''/.agentic-logs/'' @ sub_taskId v @ ''.log''"

definition tasksFile :: "submission \<Rightarrow> string" where
  "tasksFile v = sub_workingDirectory v @ ''/.agentic-tasks.json''"

definition newTask :: "submission \<Rightarrow> task" where
  "newTask v =
     \<lparr>task_id = sub_taskId v, agent = ''opencode'', prompt = sub_prompt v,
      startTime = sub_startTime v, status = ''running'', logFile = logFilePath v,
      endTime = None\<rparr>"

text \<open>
  \<open>handleSubmit\<close> on the text of the ledger file at \<open>tasksFile\<close>: the checks, the
  ledger write and the toasts. When it has written the ledger it writes the runner script
  and starts it as a detached process. Creating the log and tools directories, writing the
  script file, opening the log and spawning the runtime are taken to succeed.
\<close>

definition handleSubmit :: "submission \<Rightarrow> ledger_file \<Rightarrow> submit_result" where
  "handleSubmit v lf =
     (if sub_prompt v = [] then
        \<lparr>sub_trace = [ToastFailure ''Prompt is required''], sub_ledger = lf, sub_started = False\<rparr>
      else if \<not> sub_dir_exists v then
        \<lparr>sub_trace = [ToastFailure ''Working directory not found''], sub_ledger = lf,
         sub_started = False\<rparr>
      else
        (case createTask lf (newTask v) of
           Inl e \<Rightarrow>
             \<lparr>sub_trace = [ToastAnimated ''Starting Agent...'', ToastFailure ''Failed to start Agent''],
              sub_ledger = lf, sub_started = False\<rparr>
         | Inr ts \<Rightarrow>
             \<lparr>sub_trace =
                [ToastAnimated ''Starting Agent...'', WriteLedger ts, ToastSuccess ''Agent started''],
              sub_ledger = Some (TaskArray ts), sub_started = True\<rparr>))"

fun findIndex :: "('a \<Rightarrow> bool) \<Rightarrow> 'a list \<Rightarrow> nat option" where
  "findIndex P [] = None"
| "findIndex P (x # xs) = (if P x then Some 0 else map_option Suc (findIndex P xs))"

text \<open>
  \<open>tasks.findIndex(t => t.id === taskId)\<close> on the parsed array: reading \<open>id\<close> of
  \<open>null\<close> throws, a value without an \<open>id\<close> is passed over, and the first record with
  the id is found.
\<close>

datatype find_result = Found nat | NotFound | Throws

definition shift_found :: "find_result \<Rightarrow> find_result" where
  "shift_found r = (case r of Found i \<Rightarrow> Found (Suc i) | NotFound \<Rightarrow> NotFound | Throws \<Rightarrow> Throws)"

fun findTask :: "string \<Rightarrow> ledger_entry list \<Rightarrow> find_result" where
  "findTask taskId [] = NotFound"
| "findTask taskId (NullEntry # es) = Throws"
| "findTask taskId (OtherEntry # es) = shift_found (findTask taskId es)"
| "findTask taskId (TaskEntry t # es) =
     (if task_id t = taskId then Found 0 else shift_found (findTask taskId es))"

text \<open>\<open>tasks[idx].status = status; if (endTime) tasks[idx].endTime = endTime\<close>.\<close>

definition markEntry :: "string \<Rightarrow> nat \<Rightarrow> ledger_entry \<Rightarrow> ledger_entry" where
  "markEntry st endT e =
     (case e of
        TaskEntry t \<Rightarrow>
          TaskEntry (if endT \<noteq> 0 then t\<lparr>status := st, endTime := Some endT\<rparr> else t\<lparr>status := st\<rparr>)
      | _ \<Rightarrow> e)"

text \<open>
  \<open>updateTask\<close> of the runner script. Everything is inside one \<open>try\<close>: when the file
  does not parse, or parses to something without \<open>findIndex\<close>, or \<open>findIndex\<close> throws on
  a \<open>null\<close> element, the exception is logged and nothing is written. \<open>if (endTime)\<close>
  skips a zero end time.
\<close>

definition updateTask :: "string \<Rightarrow> ledger_file \<Rightarrow> string \<Rightarrow> nat \<Rightarrow> ledger_file \<times> obs list" where
  "updateTask taskId lf st endT =
     (case lf of
        None \<Rightarrow> (lf, [])
      | Some Unparseable \<Rightarrow> (lf, [LogLine ''Failed to update task: SyntaxError''])
      | Some NotArray \<Rightarrow> (lf, [LogLine ''Failed to update task: TypeError''])
      | Some (TaskArray ts) \<Rightarrow>
          (case findTask taskId ts of
             Throws \<Rightarrow> (lf, [LogLine ''Failed to update task: TypeError''])
           | NotFound \<Rightarrow> (lf, [])
           | Found idx \<Rightarrow>
               let ts' = ts[idx := markEntry st endT (ts ! idx)]
               in (Some (TaskArray ts'), [WriteLedger ts'])))"

subsection \<open>The generated runner script\<close>

text \<open>
  \<open>handleSubmit\<close> writes the runner script as text: the task id, the paths, the models
  and the API key go between double quotes, the prompt goes into a template literal after
  \<open>prompt.replace(/`/g, "\\`").replace(/\$/g, "\\$")\<close>. What the runner works with is
  what the JavaScript runtime reads back from those literals. A literal is read character
  by character; \<open>js_scan\<close> follows the ECMAScript rules for the escapes in a module
  (strict code): a legacy octal escape and a malformed \<open>\x\<close> or \<open>\u\<close> are syntax
  errors, any other escaped character stands for itself. Strings are sequences of code
  units below 256.

  Reading a literal gives its value, or a syntax error, or leaves the model: when the
  literal ends before its text does (an unescaped delimiter, a \<open>${\<close> in the template,
  or a backslash before the closing delimiter) the rest is read as program text, and when
  an escape denotes a code unit of 256 or more the value is no \<^typ>\<open>string\<close>.
\<close>

datatype 'a script_value = Evaluates 'a | SyntaxError | NotModelled

datatype lit_kind = TemplateLit | StringLit

datatype lit_state =
    Plain
  | Esc
  | EscZero
  | EscCR
  | Hex nat nat
  | UStart
  | UBrace "nat option"
  | Dollar
  | SawCR

datatype step_result = Go string lit_state | Bad | Outside

definition hexval :: "char \<Rightarrow> nat option" where
  "hexval c =
     map_of (zip ''0123456789abcdef'' [0 ..< 16] @ zip ''ABCDEF'' [10 ..< 16]) c"

definition isDigit :: "char \<Rightarrow> bool" where
  "isDigit c \<longleftrightarrow> c \<in> set ''0123456789''"

definition emit_unit :: "nat \<Rightarrow> step_result" where
  "emit_unit n = (if n < 256 then Go [char_of n] Plain else Outside)"

text \<open>
  A character outside an escape. In a template a carriage return reads as a line feed
  (and swallows a line feed that follows); in a string a line end is a syntax error.
\<close>

definition plain_step :: "lit_kind \<Rightarrow> char \<Rightarrow> step_result" where
  "plain_step k c =
     (if c = CHR 0x5C then Go [] Esc
      else
        (case k of
           TemplateLit \<Rightarrow>
             if c = CHR 0x60 then Outside
             else if c = CHR 0x24 then Go [] Dollar
             else if c = CHR 0x0D then Go [CHR 0x0A] SawCR
             else Go [c] Plain
         | StringLit \<Rightarrow>
             if c = CHR 0x22 then Outside
             else if c = CHR 0x0A \<or> c = CHR 0x0D then Bad
             else Go [c] Plain))"

definition after_lookahead :: "string \<Rightarrow> step_result \<Rightarrow> step_result" where
  "after_lookahead pre s = (case s of Go out st \<Rightarrow> Go (pre @ out) st | Bad \<Rightarrow> Bad | Outside \<Rightarrow> Outside)"

definition single_escape :: "char \<Rightarrow> char option" where
  "single_escape c =
     map_of [(CHR ''n'', CHR 0x0A), (CHR ''t'', CHR 0x09), (CHR ''r'', CHR 0x0D),
             (CHR ''b'', CHR 0x08), (CHR ''f'', CHR 0x0C), (CHR ''v'', CHR 0x0B)] c"

fun lit_step :: "lit_kind \<Rightarrow> lit_state \<Rightarrow> char \<Rightarrow> step_result" where
  "lit_step k Plain c = plain_step k c"
| "lit_step k Esc c =
     (case single_escape c of
        Some e \<Rightarrow> Go [e] Plain
      | None \<Rightarrow>
          if c = CHR ''0'' then Go [] EscZero
          else if isDigit c then Bad
          else if c = CHR ''x'' then Go [] (Hex 2 0)
          else if c = CHR ''u'' then Go [] UStart
          else if c = CHR 0x0A then Go [] Plain
          else if c = CHR 0x0D then Go [] EscCR
          else Go [c] Plain)"
| "lit_step k EscZero c =
     (if isDigit c then Bad else after_lookahead [CHR 0x00] (plain_step k c))"
| "lit_step k EscCR c = (if c = CHR 0x0A then Go [] Plain else plain_step k c)"
| "lit_step k (Hex n acc) c =
     (case hexval c of
        None \<Rightarrow> Bad
      | Some d \<Rightarrow>
          if n = 0 then Bad
          else if n = 1 then emit_unit (acc * 16 + d)
          else Go [] (Hex (n - 1) (acc * 16 + d)))"
| "lit_step k UStart c =
     (if c = CHR 0x7B then Go [] (UBrace None)
      else (case hexval c of None \<Rightarrow> Bad | Some d \<Rightarrow> Go [] (Hex 3 d)))"
| "lit_step k (UBrace v) c =
     (if c = CHR 0x7D then (case v of None \<Rightarrow> Bad | Some n \<Rightarrow> emit_unit n)
      else
        (case hexval c of
           None \<Rightarrow> Bad
         | Some d \<Rightarrow>
             let n = (case v of None \<Rightarrow> d | Some a \<Rightarrow> a * 16 + d)
             in if n > 1114111 then Bad else Go [] (UBrace (Some n))))"
| "lit_step k Dollar c =
     (if c = CHR 0x7B then Outside else after_lookahead [CHR 0x24] (plain_step k c))"
| "lit_step k SawCR c = (if c = CHR 0x0A then Go [] Plain else plain_step k c)"

text \<open>The closing delimiter is reached.\<close>

fun lit_end :: "lit_state \<Rightarrow> string script_value" where
  "lit_end Plain = Evaluates []"
| "lit_end Esc = NotModelled"
| "lit_end EscZero = Evaluates [CHR 0x00]"
| "lit_end EscCR = Evaluates []"
| "lit_end (Hex n acc) = SyntaxError"
| "lit_end UStart = SyntaxError"
| "lit_end (UBrace v) = SyntaxError"
| "lit_end Dollar = Evaluates [CHR 0x24]"
| "lit_end SawCR = Evaluates []"

definition prepend :: "string \<Rightarrow> string script_value \<Rightarrow> string script_value" where
  "prepend out v = (case v of Evaluates s \<Rightarrow> Evaluates (out @ s) | SyntaxError \<Rightarrow> SyntaxError
                    | NotModelled \<Rightarrow> NotModelled)"

fun js_scan :: "lit_kind \<Rightarrow> lit_state \<Rightarrow> string \<Rightarrow> string script_value" where
  "js_scan k st [] = lit_end st"
| "js_scan k st (c # cs) =
     (case lit_step k st c of
        Go out st' \<Rightarrow> prepend out (js_scan k st' cs)
      | Bad \<Rightarrow> SyntaxError
      | Outside \<Rightarrow> NotModelled)"

definition js_string :: "string \<Rightarrow> string script_value" where
  "js_string s = js_scan StringLit Plain s"

definition js_template :: "string \<Rightarrow> string script_value" where
  "js_template s = js_scan TemplateLit Plain s"

text \<open>
  Literals are read in the order of the script; the first one that is no value decides.
\<close>

definition and_then :: "'a script_value \<Rightarrow> ('a \<Rightarrow> 'b script_value) \<Rightarrow> 'b script_value" where
  "and_then v f = (case v of Evaluates a \<Rightarrow> f a | SyntaxError \<Rightarrow> SyntaxError
                   | NotModelled \<Rightarrow> NotModelled)"

definition escapeForTemplate :: "string \<Rightarrow> string" where
  "escapeForTemplate p =
     concat (map (\<lambda>c. if c = CHR 0x60 then [CHR 0x5C, CHR 0x60]
                       else if c = CHR 0x24 then [CHR 0x5C, CHR 0x24] else [c]) p)"

text \<open>The fixed text of \<open>promptText\<close> in front of the prompt.\<close>

definition PROMPT_HEADER :: string where
  "PROMPT_HEADER =
     ''You are running in a Docker container with FULL NETWORK ACCESS.\<newline>''
     @ ''Execute tasks directly - you can download files, make API calls, etc.\<newline>''
     @ ''Save any output files to /workspace directory.\<newline>''
     @ ''\<newline>''
     @ ''IMPORTANT - TOOL REUSE:\<newline>''
     @ ''Before creating any scripts or tools, check /tools directory for existing tools that might solve the task:\<newline>''
     @ ''1. Run: ls -la /tools/ to see available tools\<newline>''
     @ ''2. If a suitable tool exists, use it instead of creating a new one\<newline>''
     @ ''3. If you must create a new tool, save it to /workspace with a descriptive filename\<newline>''
     @ ''\<newline>''
     @ ''IMPORTANT - INSTALLING PACKAGES:\<newline>''
     @ ''For Python tools like yt-dlp, use: uv tool run yt-dlp [args]\<newline>''
     @ ''This runs the tool without needing global installation.\<newline>''
     @ ''\<newline>''
     @ ''USER REQUEST:\<newline>''"

record runner_config =
  r_taskId :: string
  r_tasksFile :: string
  r_logFile :: string
  r_workingDirectory :: string
  r_toolsDirectory :: string
  r_primaryModel :: string
  r_retryModel :: string
  r_openRouterApiKey :: string
  r_promptText :: string

text \<open>
  \<open>dockerfilePath\<close> and \<open>dockerContextPath\<close> are
  \<open>path.join(workingDirectory, "docker", "Dockerfile")\<close> and the working directory,
  each with its backslashes doubled by \<open>escapePathForTemplate\<close>. \<open>path.join\<close>
  drops and joins segments of the working directory and adds no character of its own
  besides the two names and separators. With every backslash doubled, such a literal reads
  as a value when its text has no double quote and no line end; so both do when the
  working directory has none. Their values feed only the existence test of the Dockerfile
  and the build, which \<open>runner_image\<close> answers. A working directory with a double
  quote or a line end leaves the model here.
\<close>

definition docker_paths :: "string \<Rightarrow> unit script_value" where
  "docker_paths wd =
     (if list_ex (\<lambda>c. c = CHR 0x22 \<or> c = CHR 0x0A \<or> c = CHR 0x0D) wd then NotModelled
      else Evaluates ())"

text \<open>
  The constants at the head of the runner script, as the runtime reads them, in the order
  of the script. The rest of the script is fixed text.
\<close>

definition runnerScript :: "submission \<Rightarrow> runner_config script_value" where
  "runnerScript v =
     and_then (js_string (sub_taskId v)) (\<lambda>tid.
     and_then (js_string (tasksFile v)) (\<lambda>tf.
     and_then (js_string (logFilePath v)) (\<lambda>lg.
     and_then (js_string (sub_workingDirectory v)) (\<lambda>wd.
     and_then (js_string (sub_workingDirectory v @ ''/tools'')) (\<lambda>td.
     and_then (js_string (''openrouter/'' @
                 (if sub_modelName v = [] then ''anthropic/claude-3.5-haiku''
                  else sub_modelName v))) (\<lambda>pm.
     and_then (js_string (if sub_retryModelName v = [] then []
                          else ''openrouter/'' @ sub_retryModelName v)) (\<lambda>rm.
     and_then (js_string (sub_openRouterApiKey v)) (\<lambda>key.
     and_then (docker_paths (sub_workingDirectory v)) (\<lambda>u.
     and_then (js_template (PROMPT_HEADER @ escapeForTemplate (sub_prompt v) @ [CHR 0x0A]))
       (\<lambda>p.
       Evaluates
         \<lparr>r_taskId = tid, r_tasksFile = tf, r_logFile = lg, r_workingDirectory = wd,
          r_toolsDirectory = td, r_primaryModel = pm, r_retryModel = rm,
          r_openRouterApiKey = key, r_promptText = p\<rparr>))))))))))"

definition runnerDockerArgs :: "runner_config \<Rightarrow> string \<Rightarrow> string \<Rightarrow> string list" where
  "runnerDockerArgs cfg model p =
     [''run'', ''--rm'',
      ''-e'', ''OPENROUTER_API_KEY='' @ r_openRouterApiKey cfg,
      ''-v'', r_workingDirectory cfg @ '':/workspace'',
      ''-v'', r_toolsDirectory cfg @ '':/tools:ro'',
      ''-w'', ''/workspace'',
      DOCKER_IMAGE,
      ''opencode'', ''run'', ''--model'', model, escapeForShell p, ''--print-logs'']"

text \<open>
  What \<open>spawnSync\<close> returns: \<open>status\<close> is \<open>null\<close> when the child was ended by a
  signal (the 10 minute timeout sends one) or could not be started.
\<close>

record spawn_sync_result =
  ss_status :: "int option"
  ss_stdout :: "string option"
  ss_stderr :: "string option"

definition str_or_empty :: "string option \<Rightarrow> string" where
  "str_or_empty s = (case s of None \<Rightarrow> [] | Some t \<Rightarrow> t)"

definition runDockerSync ::
  "(nat \<Rightarrow> string list \<Rightarrow> spawn_sync_result) \<Rightarrow> nat \<Rightarrow> runner_config \<Rightarrow> string \<Rightarrow> string
     \<Rightarrow> run_result" where
  "runDockerSync spawnSync n cfg model p =
     (let result = spawnSync n (runnerDockerArgs cfg model p)
      in \<lparr>exitCode = code_or_0 (ss_status result),
          outputText = str_or_empty (ss_stdout result) @ str_or_empty (ss_stderr result)\<rparr>)"

definition RUNNER_REFUSAL_PATTERNS :: "string list" where
  "RUNNER_REFUSAL_PATTERNS =
     REFUSAL_PATTERNS @
     [''decline this request'',
      ''respectfully decline'',
      ''violates YouTube's Terms'',
      ''Terms of Service'',
      ''copyright infringement'']"

definition runnerDetectRefusal :: "string \<Rightarrow> bool" where
  "runnerDetectRefusal out = detectRefusalWith RUNNER_REFUSAL_PATTERNS out"

record runner_image =
  ri_inspect_ok :: bool
  ri_test_ok :: bool
  ri_dockerfile_exists :: bool
  ri_build_ok :: bool

text \<open>
  \<open>ensureDockerImage\<close> of the runner script: it returns, or throws with a message
  (shortened here to its fixed first words).
\<close>

definition runnerEnsureDockerImage :: "runner_image \<Rightarrow> string option" where
  "runnerEnsureDockerImage i =
     (if ri_inspect_ok i \<and> ri_test_ok i then None
      else if \<not> ri_dockerfile_exists i then Some ''Dockerfile not found''
      else if \<not> ri_build_ok i then Some ''Failed to build Docker image''
      else None)"

text \<open>
  \<open>collectTools\<close> of the runner script: as in the command-line tool, but an exception
  of \<open>statSync\<close> only skips the file it was thrown for.
\<close>

fun runnerCollectTools :: "dirent list \<Rightarrow> store \<Rightarrow> store" where
  "runnerCollectTools [] st = st"
| "runnerCollectTools ((file, s) # files) st =
     (if list_ex (\<lambda>p. includes_str file p) excludePatterns then runnerCollectTools files st
      else if list_ex (\<lambda>ext. endsWith file ext) toolExtensions then
        (case s of
           StatThrows \<Rightarrow> runnerCollectTools files st
         | NotFile \<Rightarrow> runnerCollectTools files st
         | IsFile bytes \<Rightarrow>
             (if st file \<noteq> None then runnerCollectTools files st
              else runnerCollectTools files (st(file \<mapsto> \<lparr>content = bytes, mode = 493\<rparr>))))
      else runnerCollectTools files st)"

record runner_env =
  docker_info_ok :: bool
  image :: runner_image
  spawnSync :: "nat \<Rightarrow> string list \<Rightarrow> spawn_sync_result"
  workspace :: "dirent list"
  now :: nat

record runner_outcome =
  r_trace :: "obs list"
  r_ledger :: ledger_file
  r_tools :: store
  r_exit :: int

text \<open>The \<open>catch\<close> of the runner script: log the error, mark the task failed, exit 1.\<close>

definition runnerFail :: "runner_env \<Rightarrow> runner_config \<Rightarrow> ledger_file \<Rightarrow> store \<Rightarrow> string \<Rightarrow> runner_outcome" where
  "runnerFail env cfg lf st msg =
     (let (lf', w) = updateTask (r_taskId cfg) lf ''failed'' (now env)
      in \<lparr>r_trace = [LogLine (''Error: '' @ msg)] @ w @ [Exit 1], r_ledger = lf', r_tools = st,
          r_exit = 1\<rparr>)"

text \<open>
  The end of the runner script, from the harvest on, with the result of the last run. The
  removal of the agent's state directories between the harvest and the update has its own
  \<open>try\<close> and changes nothing that is modelled.
\<close>

definition runnerFinish ::
  "runner_env \<Rightarrow> runner_config \<Rightarrow> ledger_file \<Rightarrow> store \<Rightarrow> obs list \<Rightarrow> run_result \<Rightarrow> runner_outcome" where
  "runnerFinish env cfg lf st runs result =
     (let st' = (if exitCode result = 0 then runnerCollectTools (workspace env) st else st);
          h = (if exitCode result = 0 then [Harvest] else []);
          (lf', w) = updateTask (r_taskId cfg) lf
                       (if exitCode result = 0 then ''completed'' else ''failed'') (now env)
      in \<lparr>r_trace = runs @ h @ w @ [Exit (exitCode result)], r_ledger = lf', r_tools = st',
          r_exit = exitCode result\<rparr>)"

definition runnerMain :: "runner_env \<Rightarrow> runner_config \<Rightarrow> ledger_file \<Rightarrow> store \<Rightarrow> runner_outcome" where
  "runnerMain env cfg lf st =
     (if \<not> docker_info_ok env then runnerFail env cfg lf st ''Docker is not installed or not running''
      else
        (case runnerEnsureDockerImage (image env) of
           Some msg \<Rightarrow> runnerFail env cfg lf st msg
         | None \<Rightarrow>
             let result = runDockerSync (spawnSync env) 0 cfg (r_primaryModel cfg) (r_promptText cfg)
             in if r_retryModel cfg \<noteq> [] \<and> runnerDetectRefusal (outputText result) then
                  runnerFinish env cfg lf st
                    [RunAgent (r_primaryModel cfg), RunAgent (r_retryModel cfg)]
                    (runDockerSync (spawnSync env) 1 cfg (r_retryModel cfg) (r_promptText cfg))
                else runnerFinish env cfg lf st [RunAgent (r_primaryModel cfg)] result))"

text \<open>
  A submitted job: \<open>handleSubmit\<close> on the ledger file at \<open>tasksFile\<close>, then, when
  the runner was started, what the runtime does with the script. A script with a syntax
  error is rejected and nothing more happens. A script that reads as values runs
  \<open>runnerMain\<close> on the ledger file at the path the script holds. The runner appends to
  its log file before anything else and in its \<open>catch\<close>; \<open>handleSubmit\<close> has created
  the directory of \<open>logFilePath\<close>, so a script whose log file is that path can log.
  \<open>None\<close> stands for a job that leaves the model: a script that does, or one that
  names another log file. The runner is detached; the trace lists what the submitter sees
  first.
\<close>

definition submitJob ::
  "submission \<Rightarrow> runner_env \<Rightarrow> ledger_files \<Rightarrow> store \<Rightarrow> (obs list \<times> ledger_files) option" where
  "submitJob v env files st =
     (let s = handleSubmit v (files (tasksFile v));
          files1 = files(tasksFile v := sub_ledger s)
      in if \<not> sub_started s then Some (sub_trace s, files1)
         else
           (case runnerScript v of
              NotModelled \<Rightarrow> None
            | SyntaxError \<Rightarrow> Some (sub_trace s @ [ScriptRejected], files1)
            | Evaluates cfg \<Rightarrow>
                if r_logFile cfg \<noteq> logFilePath v then None
                else
                  let r = runnerMain env cfg (files1 (r_tasksFile cfg)) st
                  in Some (sub_trace s @ r_trace r, files1(r_tasksFile cfg := r_ledger r))))"

text \<open>
  The entries \<open>handleSubmit\<close> starts from, and the condition under which the record it
  adds is the one \<open>updateTask\<close> finds: no entry before it is \<open>null\<close> or carries the
  job's id.
\<close>

definition ledger_entries :: "ledger_file \<Rightarrow> ledger_entry list" where
  "ledger_entries lf = (case lf of Some (TaskArray ts) \<Rightarrow> ts | _ \<Rightarrow> [])"





text \<open>Sample submissions, scripts and environments.\<close>

definition sample_submission :: submission where
  "sample_submission =
     \<lparr>sub_prompt = ''write a fizzbuzz script'', sub_workingDirectory = ''/w'',
      sub_modelName = ''a/b'', sub_retryModelName = [], sub_openRouterApiKey = ''key'',
      sub_dir_exists = True, sub_taskId = ''1700000000000'', sub_startTime = 1700000000001\<rparr>"

definition sample_runner_config :: runner_config where
  "sample_runner_config =
     \<lparr>r_taskId = ''1700000000000'', r_tasksFile = ''/w/.agentic-tasks.json'',
      r_logFile = ''/w/.agentic-logs/1700000000000.log'', r_workingDirectory = ''/w'',
      r_toolsDirectory = ''/w/tools'', r_primaryModel = ''openrouter/a/b'', r_retryModel = [],
      r_openRouterApiKey = ''key'',
      r_promptText = PROMPT_HEADER @ ''write a fizzbuzz script\<newline>''\<rparr>"

text \<open>Literals without a backslash, a delimiter or a line end.\<close>

definition plain_string :: "string \<Rightarrow> bool" where
  "plain_string s =
     list_all (\<lambda>c. c \<noteq> CHR 0x5C \<and> c \<noteq> CHR 0x22 \<and> c \<noteq> CHR 0x0A \<and> c \<noteq> CHR 0x0D) s"

definition plain_template :: "string \<Rightarrow> bool" where
  "plain_template s =
     list_all (\<lambda>c. c \<noteq> CHR 0x5C \<and> c \<noteq> CHR 0x60 \<and> c \<noteq> CHR 0x24 \<and> c \<noteq> CHR 0x0D) s"

text \<open>A prompt that is a backslash and the digit 1: a legacy octal escape.\<close>

definition octal_submission :: submission where
  "octal_submission = sample_submission\<lparr>sub_prompt := [CHR 0x5C, CHR ''1'']\<rparr>"


text \<open>
  Ledgers the sample job starts from: one with an earlier job and a stray value, one with a
  record that already has the id of the sample job, and one with a \<open>null\<close>.
\<close>

definition earlier_task :: task where
  "earlier_task =
     \<lparr>task_id = ''1600000000000'', agent = ''opencode'', prompt = ''ls'',
      startTime = 1600000000001, status = ''completed'',
      logFile = ''/w/.agentic-logs/1600000000000.log'', endTime = Some 1600000000900\<rparr>"


definition clash_ledger :: ledger_files where
  "clash_ledger =
     [''/w/.agentic-tasks.json'' \<mapsto>
        TaskArray [TaskEntry (earlier_task\<lparr>task_id := ''1700000000000''\<rparr>)]]"

definition null_ledger :: ledger_files where
  "null_ledger = [''/w/.agentic-tasks.json'' \<mapsto> TaskArray [NullEntry]]"

definition good_image :: runner_image where
  "good_image =
     \<lparr>ri_inspect_ok = True, ri_test_ok = True, ri_dockerfile_exists = True, ri_build_ok = True\<rparr>"

definition sample_workspace :: "dirent list" where
  "sample_workspace = [(''fizzbuzz.py'', IsFile ''print(1)'')]"

definition killed_spawnSync :: "nat \<Rightarrow> string list \<Rightarrow> spawn_sync_result" where
  "killed_spawnSync n args = \<lparr>ss_status = None, ss_stdout = Some ''working'', ss_stderr = None\<rparr>"

definition no_docker_env :: runner_env where
  "no_docker_env =
     \<lparr>docker_info_ok = False, image = good_image, spawnSync = killed_spawnSync, workspace = [],
      now = 1700000000500\<rparr>"

definition timeout_env :: runner_env where
  "timeout_env =
     \<lparr>docker_info_ok = True, image = good_image, spawnSync = killed_spawnSync,
      workspace = sample_workspace, now = 1700000600000\<rparr>"




section \<open>The remote sandbox helper (daytona-cli, in scripts/cli.ts)\<close>

record run_response =
  rr_exitCode :: "int option"
  rr_exit_code :: "int option"
  rr_result :: "string option"
  rr_stdout :: "string option"
  rr_stderr :: "string option"

text \<open>\<open>res?.exitCode ?? res?.exit_code ?? 0\<close>; \<open>None\<close> is an undefined response.\<close>

definition code :: "run_response option \<Rightarrow> int" where
  "code res =
     (case res of
        None \<Rightarrow> 0
      | Some r \<Rightarrow>
          (case rr_exitCode r of
             Some c \<Rightarrow> c
           | None \<Rightarrow> (case rr_exit_code r of Some c \<Rightarrow> c | None \<Rightarrow> 0)))"

definition sq :: string where
  "sq = [CHR 0x27]"

text \<open>Each single quote becomes quote, double quote, quote, double quote, quote.\<close>

definition escapeSingleQuotes :: "string \<Rightarrow> string" where
  "escapeSingleQuotes v =
     concat (map (\<lambda>c. if c = CHR 0x27
                       then [CHR 0x27, CHR 0x22, CHR 0x27, CHR 0x22, CHR 0x27] else [c]) v)"

definition CHUNK_SIZE :: nat where
  "CHUNK_SIZE = 60000"

text \<open>\<open>s.slice(i, j)\<close> for \<open>0 \<le> i \<le> j\<close>.\<close>

definition slice :: "string \<Rightarrow> nat \<Rightarrow> nat \<Rightarrow> string" where
  "slice s i j = take (j - i) (drop i s)"

subsection \<open>Base64 as the runtime provides it\<close>

definition b64_alphabet :: string where
  "b64_alphabet = ''ABCDEFGHIJKLMNOPQRSTUVWXYZabcdefghijklmnopqrstuvwxyz0123456789+/''"

definition b64_char :: "nat \<Rightarrow> char" where
  "b64_char n = b64_alphabet ! n"

definition b64_value :: "char \<Rightarrow> nat option" where
  "b64_value c = findIndex (\<lambda>x. x = c) b64_alphabet"

text \<open>
  \<open>buffer.toString("base64")\<close>: three bytes give four characters, and a last group of
  one or two bytes is filled with zero bits and padded with \<open>=\<close>. Bytes are the
  characters of a \<^typ>\<open>string\<close>.
\<close>

text \<open>The four six-bit values of a group of three bytes.\<close>

definition sextet1 :: "nat \<Rightarrow> nat" where
  "sextet1 x = x div 4"

definition sextet2 :: "nat \<Rightarrow> nat \<Rightarrow> nat" where
  "sextet2 x y = x mod 4 * 16 + y div 16"

definition sextet3 :: "nat \<Rightarrow> nat \<Rightarrow> nat" where
  "sextet3 y z = y mod 16 * 4 + z div 64"

definition sextet4 :: "nat \<Rightarrow> nat" where
  "sextet4 z = z mod 64"

fun toBase64 :: "string \<Rightarrow> string" where
  "toBase64 [] = []"
| "toBase64 [a] =
     [b64_char (sextet1 (of_char a)), b64_char (sextet2 (of_char a) 0), CHR ''='', CHR ''='']"
| "toBase64 [a, b] =
     [b64_char (sextet1 (of_char a)), b64_char (sextet2 (of_char a) (of_char b)),
      b64_char (sextet3 (of_char b) 0), CHR ''='']"
| "toBase64 (a # b # c # rest) =
     [b64_char (sextet1 (of_char a)), b64_char (sextet2 (of_char a) (of_char b)),
      b64_char (sextet3 (of_char b) (of_char c)), b64_char (sextet4 (of_char c))]
       @ toBase64 rest"

text \<open>
  The strict decoder of the \<open>base64 -d\<close> utility, after it has dropped the newlines:
  groups of four characters of the alphabet, padding only in the last group.
\<close>

fun fromBase64 :: "string \<Rightarrow> string option" where
  "fromBase64 [] = Some []"
| "fromBase64 (a # b # c # d # rest) =
     (case (b64_value a, b64_value b) of
        (Some p, Some q) \<Rightarrow>
          if c = CHR ''='' \<and> d = CHR ''='' \<and> rest = [] then Some [char_of (p * 4 + q div 16)]
          else
            (case b64_value c of
               None \<Rightarrow> None
             | Some r \<Rightarrow>
                 if d = CHR ''='' \<and> rest = []
                 then Some [char_of (p * 4 + q div 16), char_of (q mod 16 * 16 + r div 4)]
                 else
                   (case b64_value d of
                      None \<Rightarrow> None
                    | Some s \<Rightarrow>
                        map_option
                          (\<lambda>bytes. [char_of (p * 4 + q div 16), char_of (q mod 16 * 16 + r div 4),
                                     char_of (r mod 4 * 64 + s)] @ bytes)
                          (fromBase64 rest)))
      | _ \<Rightarrow> None)"
| "fromBase64 _ = None"

text \<open>
  \<open>Buffer.from(text, "base64")\<close> is lenient: it stops at the first \<open>=\<close>, skips every
  character outside the alphabet (the URL-safe \<open>-\<close> and \<open>_\<close> count as 62 and 63), and
  decodes the six-bit values it is left with, a last group of two or three values giving
  one or two bytes.
\<close>

definition node_b64_value :: "char \<Rightarrow> nat option" where
  "node_b64_value c =
     (if c = CHR ''-'' then Some 62 else if c = CHR ''_'' then Some 63 else b64_value c)"

fun decode_sextets :: "nat list \<Rightarrow> string" where
  "decode_sextets (p # q # r # s # rest) =
     [char_of (p * 4 + q div 16), char_of (q mod 16 * 16 + r div 4), char_of (r mod 4 * 64 + s)]
       @ decode_sextets rest"
| "decode_sextets [p, q, r] = [char_of (p * 4 + q div 16), char_of (q mod 16 * 16 + r div 4)]"
| "decode_sextets [p, q] = [char_of (p * 4 + q div 16)]"
| "decode_sextets _ = []"

definition bufferFromBase64 :: "string \<Rightarrow> string" where
  "bufferFromBase64 text =
     decode_sextets (List.map_filter node_b64_value (takeWhile (\<lambda>c. c \<noteq> CHR ''='') text))"

text \<open>\<open>trim\<close> removes white space at both ends; the ASCII white space is modelled.\<close>

definition isSpace :: "char \<Rightarrow> bool" where
  "isSpace c \<longleftrightarrow> c \<in> set [CHR '' '', CHR 0x09, CHR 0x0A, CHR 0x0B, CHR 0x0C, CHR 0x0D]"

definition trim :: "string \<Rightarrow> string" where
  "trim s = rev (dropWhile isSpace (rev (dropWhile isSpace s)))"

text \<open>\<open>a || b\<close> on strings that may be undefined: the first one that is not empty.\<close>

definition str_or :: "string option \<Rightarrow> string \<Rightarrow> string" where
  "str_or a b = (case a of None \<Rightarrow> b | Some s \<Rightarrow> (if s = [] then b else s))"

subsection \<open>The sandbox\<close>

text \<open>
  The sandbox is reached through one call that takes a command text and answers with a
  response; \<open>exec\<close> below is that call, on a sandbox state of any type. The reference
  sandbox is a POSIX shell on a file system, modelled for the three commands of the
  transfer protocol. A single-quoted word ends at the next quote; the five characters
  quote, double quote, quote, double quote, quote inside it stand for one quote.
  \<open>sq_word\<close> reads such a word from just after its opening quote and returns the word
  and what follows its closing quote.
\<close>

fun sq_word :: "string \<Rightarrow> (string \<times> string) option" where
  "sq_word [] = None"
| "sq_word (c # cs) =
     (if c \<noteq> CHR 0x27 then map_option (\<lambda>(w, r). (c # w, r)) (sq_word cs)
      else
        (case cs of
           d1 # d2 # d3 # d4 # rest \<Rightarrow>
             if d1 = CHR 0x22 \<and> d2 = CHR 0x27 \<and> d3 = CHR 0x22 \<and> d4 = CHR 0x27
             then map_option (\<lambda>(w, r). (CHR 0x27 # w, r)) (sq_word rest)
             else Some ([], cs)
         | _ \<Rightarrow> Some ([], cs)))"

definition strip_prefix :: "string \<Rightarrow> string \<Rightarrow> string option" where
  "strip_prefix p s = (if startsWith s p then Some (drop (length p) s) else None)"

text \<open>The \<open>base64\<close> utility prints lines of 76 characters, each ended by a newline.\<close>

function wrap76 :: "string \<Rightarrow> string" where
  "wrap76 s = (if s = [] then [] else take 76 s @ [CHR 0x0A] @ wrap76 (drop 76 s))"
  by pat_completeness auto
termination
  by (relation "measure length") auto

declare wrap76.simps [simp del]

type_synonym remote_fs = "string \<rightharpoonup> string"

definition response :: "int \<Rightarrow> string \<Rightarrow> run_response option" where
  "response n out =
     Some \<lparr>rr_exitCode = Some n, rr_exit_code = None, rr_result = Some out, rr_stdout = None,
           rr_stderr = None\<rparr>"

definition file_or_empty :: "remote_fs \<Rightarrow> string \<Rightarrow> string" where
  "file_or_empty fs path = (case fs path of None \<Rightarrow> [] | Some bytes \<Rightarrow> bytes)"

text \<open>\<open>mkdir -p 'dir' && : > 'path'\<close>: the file is created or truncated.\<close>

definition sh_truncate :: "remote_fs \<Rightarrow> string \<Rightarrow> (remote_fs \<times> run_response option) option" where
  "sh_truncate fs cmd =
     (case strip_prefix (''mkdir -p '' @ sq) cmd of
        None \<Rightarrow> None
      | Some r1 \<Rightarrow>
          (case sq_word r1 of
             None \<Rightarrow> None
           | Some (dir, r2) \<Rightarrow>
               (case strip_prefix ('' && : > '' @ sq) r2 of
                  None \<Rightarrow> None
                | Some r3 \<Rightarrow>
                    (case sq_word r3 of
                       Some (path, []) \<Rightarrow> Some (fs(path \<mapsto> []), response 0 [])
                     | _ \<Rightarrow> None))))"

text \<open>
  \<open>echo 'text' | base64 -d >> 'path'\<close>: \<open>echo\<close> adds a newline, \<open>base64 -d\<close> drops
  the newlines and decodes, the bytes are appended. On text that is not base64 the utility
  fails with status 1; the redirection has created the file all the same.
\<close>

definition sh_append :: "remote_fs \<Rightarrow> string \<Rightarrow> (remote_fs \<times> run_response option) option" where
  "sh_append fs cmd =
     (case strip_prefix (''echo '' @ sq) cmd of
        None \<Rightarrow> None
      | Some r1 \<Rightarrow>
          (case sq_word r1 of
             None \<Rightarrow> None
           | Some (text, r2) \<Rightarrow>
               (case strip_prefix ('' | base64 -d >> '' @ sq) r2 of
                  None \<Rightarrow> None
                | Some r3 \<Rightarrow>
                    (case sq_word r3 of
                       Some (path, []) \<Rightarrow>
                         (case fromBase64 (filter (\<lambda>c. c \<noteq> CHR 0x0A) (text @ [CHR 0x0A])) of
                            None \<Rightarrow>
                              Some (fs(path \<mapsto> file_or_empty fs path),
                                    response 1 ''base64: invalid input'')
                          | Some bytes \<Rightarrow>
                              Some (fs(path \<mapsto> file_or_empty fs path @ bytes), response 0 []))
                     | _ \<Rightarrow> None))))"

text \<open>\<open>base64 'path'\<close>: the encoded file on standard output, or status 1 without the file.\<close>

definition sh_base64 :: "remote_fs \<Rightarrow> string \<Rightarrow> (remote_fs \<times> run_response option) option" where
  "sh_base64 fs cmd =
     (case strip_prefix (''base64 '' @ sq) cmd of
        None \<Rightarrow> None
      | Some r1 \<Rightarrow>
          (case sq_word r1 of
             Some (path, []) \<Rightarrow>
               (case fs path of
                  None \<Rightarrow> Some (fs, response 1 ''base64: No such file or directory'')
                | Some bytes \<Rightarrow> Some (fs, response 0 (wrap76 (toBase64 bytes))))
           | _ \<Rightarrow> None))"

definition sandbox_shell :: "remote_fs \<Rightarrow> string \<Rightarrow> remote_fs \<times> run_response option" where
  "sandbox_shell fs cmd =
     (case sh_truncate fs cmd of
        Some a \<Rightarrow> a
      | None \<Rightarrow>
          (case sh_append fs cmd of
             Some a \<Rightarrow> a
           | None \<Rightarrow>
               (case sh_base64 fs cmd of
                  Some a \<Rightarrow> a
                | None \<Rightarrow> (fs, response 127 ''command not found''))))"

subsection \<open>Pushing and pulling files\<close>

text \<open>\<open>path.posix.dirname\<close>, as Node computes it.\<close>

definition posix_dirname :: "string \<Rightarrow> string" where
  "posix_dirname path =
     (if path = [] then ''.''
      else
        let hasRoot = (hd path = CHR ''/'');
            after = dropWhile (\<lambda>c. c \<noteq> CHR ''/'') (dropWhile (\<lambda>c. c = CHR ''/'') (rev (tl path)));
            end_ix = length after
        in if after = [] then (if hasRoot then ''/'' else ''.'')
           else if hasRoot \<and> end_ix = 1 then ''//''
           else take end_ix path)"

datatype cli_error =
    ApiKeyMissing
  | CreateFailed
  | ReadFailed string
  | PushFailed string
  | CommandFailed
  | PullFailed string
  | ResponseUndefined
  | DeleteFailed

type_synonym local_fs = "string \<rightharpoonup> string"

text \<open>The three command texts of the transfer, over words that are already escaped.\<close>

definition mkdir_truncate_cmd :: "string \<Rightarrow> string \<Rightarrow> string" where
  "mkdir_truncate_cmd dir remote =
     ''mkdir -p '' @ sq @ dir @ sq @ '' && : > '' @ sq @ remote @ sq"

definition echo_append_cmd :: "string \<Rightarrow> string \<Rightarrow> string" where
  "echo_append_cmd chunk remote =
     ''echo '' @ sq @ chunk @ sq @ '' | base64 -d >> '' @ sq @ remote @ sq"

definition base64_cmd :: "string \<Rightarrow> string" where
  "base64_cmd remote = ''base64 '' @ sq @ remote @ sq"

text \<open>The loop of \<open>pushFile\<close> over the chunks of the encoded text, from index \<open>i\<close>.\<close>

function pushChunks ::
  "('r \<Rightarrow> string \<Rightarrow> 'r \<times> run_response option) \<Rightarrow> string \<Rightarrow> string \<Rightarrow> string \<Rightarrow> nat \<Rightarrow> 'r
     \<Rightarrow> cli_error + 'r" where
  "pushChunks exec lcl remote b64 i r =
     (if i < length b64 then
        (let chunk = escapeSingleQuotes (slice b64 i (i + CHUNK_SIZE));
             a = exec r (echo_append_cmd chunk remote)
         in if code (snd a) \<noteq> 0 then Inl (PushFailed lcl)
            else pushChunks exec lcl remote b64 (i + CHUNK_SIZE) (fst a))
      else Inr r)"
  by pat_completeness auto
termination
  by (relation "measure (\<lambda>(exec, lcl, remote, b64, i, r). length b64 - i)")
     (auto simp: CHUNK_SIZE_def)

declare pushChunks.simps [simp del]

definition pushFile ::
  "('r \<Rightarrow> string \<Rightarrow> 'r \<times> run_response option) \<Rightarrow> local_fs \<Rightarrow> string \<times> string \<Rightarrow> 'r
     \<Rightarrow> cli_error + 'r" where
  "pushFile exec lfs pair r =
     (case lfs (fst pair) of
        None \<Rightarrow> Inl (ReadFailed (fst pair))
      | Some buffer \<Rightarrow>
          let b64 = toBase64 buffer;
              remote = escapeSingleQuotes (snd pair);
              dir = posix_dirname (snd pair);
              a = exec r (mkdir_truncate_cmd (escapeSingleQuotes dir) remote)
          in pushChunks exec (fst pair) remote b64 0 (fst a))"

text \<open>
  \<open>pullFile\<close> of a pair (remote, local). Reading \<open>res.result\<close> of an undefined
  response throws.
\<close>

definition pullFile ::
  "('r \<Rightarrow> string \<Rightarrow> 'r \<times> run_response option) \<Rightarrow> string \<times> string \<Rightarrow> local_fs \<Rightarrow> 'r
     \<Rightarrow> cli_error + (local_fs \<times> 'r)" where
  "pullFile exec pair lfs r =
     (let remoteEsc = escapeSingleQuotes (fst pair);
          a = exec r (base64_cmd remoteEsc)
      in if code (snd a) \<noteq> 0 then Inl (PullFailed (fst pair))
         else
           (case snd a of
              None \<Rightarrow> Inl ResponseUndefined
            | Some res \<Rightarrow>
                let data = str_or (rr_result res) (str_or (rr_stdout res) []);
                    buf = bufferFromBase64 (trim data)
                in Inr (lfs(snd pair \<mapsto> buf), fst a)))"

subsection \<open>The job of the sandbox helper\<close>

record options =
  o_apiKey :: "string option"
  o_language :: "string option"
  o_remoteDir :: string
  o_push :: "(string \<times> string) list"
  o_pull :: "(string \<times> string) list"
  o_cmd :: "string option"
  o_keep :: bool

fun pushAll ::
  "('r \<Rightarrow> string \<Rightarrow> 'r \<times> run_response option) \<Rightarrow> local_fs \<Rightarrow> (string \<times> string) list \<Rightarrow> 'r
     \<Rightarrow> cli_error + 'r" where
  "pushAll exec lfs [] r = Inr r"
| "pushAll exec lfs (pair # pairs) r =
     (case pushFile exec lfs pair r of
        Inl e \<Rightarrow> Inl e
      | Inr r' \<Rightarrow> pushAll exec lfs pairs r')"

fun pullAll ::
  "('r \<Rightarrow> string \<Rightarrow> 'r \<times> run_response option) \<Rightarrow> (string \<times> string) list \<Rightarrow> local_fs \<Rightarrow> 'r
     \<Rightarrow> cli_error + (local_fs \<times> 'r)" where
  "pullAll exec [] lfs r = Inr (lfs, r)"
| "pullAll exec (pair # pairs) lfs r =
     (case pullFile exec pair lfs r of
        Inl e \<Rightarrow> Inl e
      | Inr (lfs', r') \<Rightarrow> pullAll exec pairs lfs' r')"

text \<open>\<open>if (opts.cmd)\<close>: an absent or empty command is skipped.\<close>

definition runCmd ::
  "('r \<Rightarrow> string \<Rightarrow> 'r \<times> run_response option) \<Rightarrow> string option \<Rightarrow> 'r \<Rightarrow> cli_error + 'r" where
  "runCmd exec c r =
     (case c of
        None \<Rightarrow> Inr r
      | Some text \<Rightarrow>
          if text = [] then Inr r
          else
            (let a = exec r text
             in case snd a of
                  None \<Rightarrow> Inl ResponseUndefined
                | Some res \<Rightarrow> if code (snd a) \<noteq> 0 then Inl CommandFailed else Inr (fst a)))"

text \<open>
  The provider: whether \<open>create\<close> and \<open>delete\<close> succeed, the state of a fresh sandbox,
  and the command execution.
\<close>

record 'r provider =
  create_ok :: bool
  fresh :: 'r
  exec :: "'r \<Rightarrow> string \<Rightarrow> 'r \<times> run_response option"
  delete_ok :: bool

text \<open>
  What \<open>main\<close> leaves behind: whether a sandbox was created, whether \<open>sandbox.delete()\<close>
  was called, the error that reached the \<open>catch\<close>, the process exit code, and the local
  files.
\<close>

record main_outcome =
  m_created :: bool
  m_delete_called :: bool
  m_error :: "cli_error option"
  m_exitCode :: int
  m_local :: local_fs

definition failed :: "bool \<Rightarrow> cli_error \<Rightarrow> local_fs \<Rightarrow> main_outcome" where
  "failed created e lfs =
     \<lparr>m_created = created, m_delete_called = False, m_error = Some e, m_exitCode = 1,
      m_local = lfs\<rparr>"

definition daytona_main :: "'r provider \<Rightarrow> options \<Rightarrow> local_fs \<Rightarrow> main_outcome" where
  "daytona_main p opts lfs =
     (if o_apiKey opts = None \<or> o_apiKey opts = Some [] then failed False ApiKeyMissing lfs
      else if \<not> create_ok p then failed False CreateFailed lfs
      else
        (case pushAll (exec p) lfs (o_push opts) (fresh p) of
           Inl e \<Rightarrow> failed True e lfs
         | Inr r1 \<Rightarrow>
             (case runCmd (exec p) (o_cmd opts) r1 of
                Inl e \<Rightarrow> failed True e lfs
              | Inr r2 \<Rightarrow>
                  (case pullAll (exec p) (o_pull opts) lfs r2 of
                     Inl e \<Rightarrow> failed True e lfs
                   | Inr (lfs', r3) \<Rightarrow>
                       if \<not> o_keep opts then
                         (if delete_ok p
                          then \<lparr>m_created = True, m_delete_called = True, m_error = None,
                                m_exitCode = 0, m_local = lfs'\<rparr>
                          else \<lparr>m_created = True, m_delete_called = True,
                                m_error = Some DeleteFailed, m_exitCode = 1, m_local = lfs'\<rparr>)
                       else \<lparr>m_created = True, m_delete_called = False, m_error = None,
                             m_exitCode = 0, m_local = lfs'\<rparr>))))"

subsection \<open>The runner script for the remote sandbox (src/ask-agent.tsx)\<close>

definition CONTEXT_DIR :: string where
  "CONTEXT_DIR = ''/home/daytona/context''"

text \<open>\<open>remotePath.substring(0, remotePath.lastIndexOf('/'))\<close>.\<close>

definition dir_of :: "string \<Rightarrow> string" where
  "dir_of remotePath = rev (drop 1 (dropWhile (\<lambda>c. c \<noteq> CHR ''/'') (rev remotePath)))"

text \<open>
  \<open>uploadFile\<close> takes the encoded content and runs the same chunk loop as \<open>pushFile\<close>;
  its error carries the remote path.
\<close>

definition uploadFile ::
  "('r \<Rightarrow> string \<Rightarrow> 'r \<times> run_response option) \<Rightarrow> string \<Rightarrow> string \<Rightarrow> 'r \<Rightarrow> cli_error + 'r" where
  "uploadFile run remotePath b64Content r =
     (let escaped = escapeSingleQuotes remotePath;
          dir = dir_of remotePath;
          a = run r (mkdir_truncate_cmd (escapeSingleQuotes dir) escaped)
      in pushChunks run remotePath escaped b64Content 0 (fst a))"

fun uploadAll ::
  "('r \<Rightarrow> string \<Rightarrow> 'r \<times> run_response option) \<Rightarrow> (string \<times> string) list \<Rightarrow> 'r
     \<Rightarrow> cli_error + 'r" where
  "uploadAll run [] r = Inr r"
| "uploadAll run ((name, b64) # files) r =
     (case uploadFile run (CONTEXT_DIR @ ''/'' @ name) b64 r of
        Inl e \<Rightarrow> Inl e
      | Inr r' \<Rightarrow> uploadAll run files r')"

record remote_job =
  job_model :: string
  job_openRouterApiKey :: string
  job_promptText :: string
  job_files :: "(string \<times> string) list"

fun join_lines :: "string list \<Rightarrow> string" where
  "join_lines [] = []"
| "join_lines [l] = l"
| "join_lines (l # ls) = l @ ''\<newline>'' @ join_lines ls"

definition fullPrompt :: "remote_job \<Rightarrow> string" where
  "fullPrompt job =
     job_promptText job @
     (if job_files job = [] then []
      else ''\<newline>\<newline>Context files uploaded to '' @ CONTEXT_DIR @ ''/:\<newline>''
           @ join_lines (map (\<lambda>f. ''- '' @ fst f) (job_files job)))"

definition agentCommand :: "remote_job \<Rightarrow> string" where
  "agentCommand job =
     (if job_openRouterApiKey job = [] then []
      else ''export OPENROUTER_API_KEY='' @ sq @ escapeForShell (job_openRouterApiKey job) @ sq
           @ '' && '')
     @ ''opencode run --model '' @ sq @ escapeForShell (job_model job) @ sq @ '' '' @ sq
     @ escapeForShell (fullPrompt job) @ sq @ '' --print-logs 2>&1''"

record remote_outcome =
  dr_created :: bool
  dr_delete_called :: bool
  dr_status :: string
  dr_exit :: int

text \<open>
  \<open>main\<close> of the runner script: create, install the agent, upload the context files, run
  the agent, delete the sandbox, then mark the task by the agent's exit code. A non-zero
  exit code of the agent is no exception; anything thrown goes to the \<open>catch\<close>, which
  marks the task failed and exits with 1.
\<close>

definition remoteRunnerMain :: "'r provider \<Rightarrow> remote_job \<Rightarrow> remote_outcome" where
  "remoteRunnerMain p job =
     (if \<not> create_ok p
      then \<lparr>dr_created = False, dr_delete_called = False, dr_status = ''failed'', dr_exit = 1\<rparr>
      else
        let a0 = exec p (fresh p) ''npm install -g opencode-ai 2>&1''
        in (case uploadAll (exec p) (job_files job) (fst a0) of
              Inl e \<Rightarrow>
                \<lparr>dr_created = True, dr_delete_called = False, dr_status = ''failed'', dr_exit = 1\<rparr>
            | Inr r1 \<Rightarrow>
                let a = exec p r1 (agentCommand job);
                    exitCode = code (snd a)
                in if \<not> delete_ok p
                   then \<lparr>dr_created = True, dr_delete_called = True, dr_status = ''failed'',
                         dr_exit = 1\<rparr>
                   else \<lparr>dr_created = True, dr_delete_called = True,
                         dr_status = (if exitCode = 0 then ''completed'' else ''failed''),
                         dr_exit = exitCode\<rparr>))"

definition plain_job :: remote_job where
  "plain_job =
     \<lparr>job_model = ''openrouter/a/b'', job_openRouterApiKey = ''key'', job_promptText = ''hi'',
      job_files = []\<rparr>"

text \<open>Sample options of the sandbox helper, and a provider on which every command fails.\<close>

definition plain_options :: options where
  "plain_options =
     \<lparr>o_apiKey = Some ''key'', o_language = None, o_remoteDir = ''/tmp/daytona-cli'',
      o_push = [], o_pull = [], o_cmd = None, o_keep = False\<rparr>"

definition failing_provider :: "unit provider" where
  "failing_provider =
     \<lparr>create_ok = True, fresh = (), exec = (\<lambda>r c. (r, response 1 ''boom'')), delete_ok = True\<rparr>"

text \<open>
  The six-bit values that encode a byte sequence, without the padding: what a decoder has
  to find in the encoded text.
\<close>

fun sextets :: "string \<Rightarrow> nat list" where
  "sextets [] = []"
| "sextets [a] = [sextet1 (of_char a), sextet2 (of_char a) 0]"
| "sextets [a, b] =
     [sextet1 (of_char a), sextet2 (of_char a) (of_char b), sextet3 (of_char b) 0]"
| "sextets (a # b # c # rest) =
     [sextet1 (of_char a), sextet2 (of_char a) (of_char b), sextet3 (of_char b) (of_char c),
      sextet4 (of_char c)] @ sextets rest"

section \<open>Facts about the string functions\<close>

lemma startsWith_iff: "startsWith s p \<longleftrightarrow> (\<exists>t. s = p @ t)"
  by (induction s p rule: startsWith.induct) auto

lemma includes_iff: "includes_str s p \<longleftrightarrow> (\<exists>a b. s = a @ p @ b)"
proof (induction s)
  case Nil
  then show ?case by auto
next
  case (Cons c s)
  show ?case
  proof
    assume "includes_str (c # s) p"
    then consider "startsWith (c # s) p" | "includes_str s p" by auto
    then show "\<exists>a b. c # s = a @ p @ b"
    proof cases
      case 1
      then obtain t where "c # s = p @ t" using startsWith_iff by blast
      then have "c # s = [] @ p @ t" by simp
      then show ?thesis by blast
    next
      case 2
      then obtain a b where "s = a @ p @ b" using Cons.IH by blast
      then have "c # s = (c # a) @ p @ b" by simp
      then show ?thesis by blast
    qed
  next
    assume "\<exists>a b. c # s = a @ p @ b"
    then obtain a b where ab: "c # s = a @ p @ b" by blast
    show "includes_str (c # s) p"
    proof (cases a)
      case Nil
      with ab have "startsWith (c # s) p" using startsWith_iff by auto
      then show ?thesis by simp
    next
      case (Cons x a')
      with ab have "s = a' @ p @ b" by simp
      then have "includes_str s p" using Cons.IH by blast
      then show ?thesis by simp
    qed
  qed
qed

lemma endsWith_iff: "endsWith s e \<longleftrightarrow> (\<exists>t. s = t @ e)"
proof -
  have "endsWith s e \<longleftrightarrow> (\<exists>t. rev s = rev e @ t)"
    by (simp add: endsWith_def startsWith_iff)
  also have "\<dots> \<longleftrightarrow> (\<exists>t. s = t @ e)"
  proof
    assume "\<exists>t. rev s = rev e @ t"
    then obtain t where "rev s = rev e @ t" by blast
    then have "rev (rev s) = rev (rev e @ t)" by simp
    then have "s = rev t @ e" by simp
    then show "\<exists>t. s = t @ e" by blast
  next
    assume "\<exists>t. s = t @ e"
    then obtain t where "s = t @ e" by blast
    then have "rev s = rev e @ rev t" by simp
    then show "\<exists>t. rev s = rev e @ t" by blast
  qed
  finally show ?thesis .
qed

lemma toLowerCase_append: "toLowerCase (a @ b) = toLowerCase a @ toLowerCase b"
  by (simp add: toLowerCase_def)

lemma detectRefusalWith_iff:
  "detectRefusalWith patterns output \<longleftrightarrow>
     (\<exists>p \<in> set patterns. \<exists>pre post. toLowerCase output = pre @ toLowerCase p @ post)"
  by (simp add: detectRefusalWith_def list_ex_iff includes_iff)

lemma cannot_assist_lower: "toLowerCase ''I CANNOT ASSIST'' = toLowerCase ''I cannot assist''"
  by (simp add: toLowerCase_def lowerChar_def)

lemma cannot_assist_pattern: "''I cannot assist'' \<in> set REFUSAL_PATTERNS"
  by (simp add: REFUSAL_PATTERNS_def)

section \<open>Facts about the harvest\<close>

lemma loop_keeps_existing:
  "st name = Some t \<Longrightarrow> fst (collectTools_loop ws st lg) name = Some t"
proof (induction ws arbitrary: st lg)
  case Nil
  then show ?case by simp
next
  case (Cons e ws)
  obtain f s where e: "e = (f, s)" by (cases e)
  show ?case
  proof (cases s)
    case (IsFile bytes)
    show ?thesis
    proof (cases "st f = None")
      case True
      with Cons.prems have "f \<noteq> name" by auto
      then have "(st(f \<mapsto> \<lparr>content = bytes, mode = 493\<rparr>)) name = Some t"
        using Cons.prems by simp
      then show ?thesis using Cons.IH Cons.prems e IsFile by simp
    next
      case False
      then show ?thesis using Cons.IH Cons.prems e IsFile by simp
    qed
  next
    case NotFile
    then show ?thesis using Cons.IH Cons.prems e by simp
  next
    case StatThrows
    then show ?thesis using Cons.IH Cons.prems e by simp
  qed
qed

lemma loop_skips_excluded:
  "list_ex (\<lambda>p. includes_str name p) excludePatterns \<Longrightarrow>
   fst (collectTools_loop ws st lg) name = st name"
proof (induction ws arbitrary: st lg)
  case Nil
  then show ?case by simp
next
  case (Cons e ws)
  obtain f s where e: "e = (f, s)" by (cases e)
  show ?case
  proof (cases "f = name")
    case True
    then show ?thesis using Cons e by simp
  next
    case False
    then have "\<And>v. (st(f \<mapsto> v)) name = st name" by simp
    then show ?thesis using Cons e by (cases s) simp_all
  qed
qed

text \<open>The harvest does copy: a new tool file lands in an empty store, executable.\<close>

lemma collectTools_copies_new:
  "fst (collectTools [(''fizzbuzz.py'', IsFile ''new'')] Map.empty) ''fizzbuzz.py''
     = Some \<lparr>content = ''new'', mode = 493\<rparr>"
  by (simp add: collectTools_def excludePatterns_def toolExtensions_def endsWith_def)

section \<open>Facts about the command-line job\<close>

lemma cli_finish_attempts: "attempts (cli_finish ms r ws st) = ms"
  by (simp add: cli_finish_def)

lemma cli_finish_exit: "exit_status (cli_finish ms r ws st) = Some (exitCode r)"
  by (simp add: cli_finish_def)

lemma cli_main_cases:
  "cli_main d spawn cfg ws st =
    (if \<not> ensureDockerImage d
      then \<lparr>attempts = [], harvested = False, tools = st, exit_status = Some 1\<rparr>
     else if retries d spawn cfg then
        (case fallback_run spawn cfg of
           None \<Rightarrow> \<lparr>attempts = [''openrouter/'' @ modelName cfg, ''openrouter/'' @ retryModelName cfg],
                     harvested = False, tools = st, exit_status = None\<rparr>
         | Some r2 \<Rightarrow>
             cli_finish [''openrouter/'' @ modelName cfg, ''openrouter/'' @ retryModelName cfg]
               r2 ws st)
     else (case primary_run spawn cfg of
             None \<Rightarrow> \<lparr>attempts = [''openrouter/'' @ modelName cfg], harvested = False, tools = st,
                       exit_status = None\<rparr>
           | Some r1 \<Rightarrow> cli_finish [''openrouter/'' @ modelName cfg] r1 ws st))"
  by (auto simp: cli_main_def retries_def primary_run_def fallback_run_def Let_def
           split: option.splits)

section \<open>Facts about runs, the runner and the ledger\<close>

lemma resolve_once: "resolved s \<noteq> None \<Longrightarrow> resolved (run_step s e) = resolved s"
  by (cases e) (auto simp: resolve_def Let_def)

lemma resolved_stays: "resolved s \<noteq> None \<Longrightarrow> resolved (foldl run_step s evs) = resolved s"
proof (induction evs arbitrary: s)
  case Nil
  then show ?case by simp
next
  case (Cons e evs)
  then have "resolved (run_step s e) \<noteq> None" by (simp add: resolve_once)
  then have "resolved (foldl run_step (run_step s e) evs) = resolved (run_step s e)"
    by (rule Cons.IH)
  then show ?case using Cons.prems by (simp add: resolve_once)
qed

lemma first_end_close:
  "resolved s = None \<Longrightarrow> first_end evs = Some (Close c) \<Longrightarrow>
   \<exists>out. resolved (foldl run_step s evs) = Some \<lparr>exitCode = code_or_0 c, outputText = out\<rparr>"
proof (induction evs arbitrary: s rule: first_end.induct)
  case 1
  then show ?case by simp
next
  case (2 c' evs)
  then have c: "c' = c" by simp
  have "resolved (run_step s (Close c)) = Some \<lparr>exitCode = code_or_0 c, outputText = buf s\<rparr>"
    using 2 by (simp add: resolve_def)
  then show ?case using c resolved_stays [of "run_step s (Close c)" evs] by simp
next
  case (3 m evs)
  then show ?case by simp
qed (simp_all)

lemma runDocker_first_end:
  "first_end evs = Some (Close None) \<Longrightarrow>
   \<exists>out. resolved (run_events evs) = Some \<lparr>exitCode = 0, outputText = out\<rparr>"
  using first_end_close [of run_init evs None]
  by (simp add: run_events_def run_init_def code_or_0_def)

lemma cli_last:
  assumes "ensureDockerImage d" "first_end (cli_last_events d spawn cfg) = Some (Close None)"
  shows "harvested (cli_main d spawn cfg ws st) \<and> exit_status (cli_main d spawn cfg ws st) = Some 0
         \<and> tools (cli_main d spawn cfg ws st) = fst (collectTools ws st)"
proof (cases "retries d spawn cfg")
  case True
  with assms(2) obtain out where "fallback_run spawn cfg = Some \<lparr>exitCode = 0, outputText = out\<rparr>"
    using runDocker_first_end by (auto simp: cli_last_events_def fallback_run_def runDocker_def)
  then show ?thesis using True assms(1) by (simp add: cli_main_cases cli_finish_def)
next
  case False
  with assms(2) obtain out where "primary_run spawn cfg = Some \<lparr>exitCode = 0, outputText = out\<rparr>"
    using runDocker_first_end by (auto simp: cli_last_events_def primary_run_def runDocker_def)
  then show ?thesis using False assms(1) by (simp add: cli_main_cases cli_finish_def)
qed








text \<open>Literals without a backslash, a delimiter or a line end read as themselves.\<close>

lemma js_string_plain: "plain_string s \<Longrightarrow> js_string s = Evaluates s"
  unfolding js_string_def plain_string_def
  by (induction s) (simp_all add: plain_step_def prepend_def)

lemma js_template_plain: "plain_template s \<Longrightarrow> js_template s = Evaluates s"
  unfolding js_template_def plain_template_def
  by (induction s) (simp_all add: plain_step_def prepend_def)

lemma escape_plain_template: "plain_template s \<Longrightarrow> escapeForTemplate s = s"
  unfolding plain_template_def escapeForTemplate_def
  by (induction s) simp_all

lemma js_template_plain_prefix:
  "plain_template h \<Longrightarrow>
   js_scan TemplateLit Plain (h @ s) = prepend h (js_scan TemplateLit Plain s)"
proof (induction h)
  case Nil
  show ?case by (cases "js_scan TemplateLit Plain s") (simp_all add: prepend_def)
next
  case (Cons c h)
  then show ?case
    by (cases "js_scan TemplateLit Plain s")
       (simp_all add: plain_template_def plain_step_def prepend_def)
qed

lemma prompt_header_plain: "plain_template PROMPT_HEADER"
  by code_simp

lemma sample_strings_plain:
  "plain_string ''1700000000000''" "plain_string ''/w/.agentic-tasks.json''"
  "plain_string ''/w/.agentic-logs/1700000000000.log''" "plain_string ''/w''"
  "plain_string ''/w/tools''" "plain_string ''openrouter/a/b''" "plain_string []"
  "plain_string ''key''"
  by (simp_all add: plain_string_def)

lemma sample_script: "runnerScript sample_submission = Evaluates sample_runner_config"
proof -
  note p = sample_strings_plain
  have t: "plain_template ''write a fizzbuzz script''"
    "plain_template ''write a fizzbuzz script\<newline>''"
    by (simp_all add: plain_template_def)
  have e: "escapeForTemplate ''write a fizzbuzz script'' @ [CHR 0x0A]
             = ''write a fizzbuzz script\<newline>''"
    using escape_plain_template [OF t(1)] by simp
  have j: "js_template (PROMPT_HEADER @ ''write a fizzbuzz script\<newline>'')
             = Evaluates (PROMPT_HEADER @ ''write a fizzbuzz script\<newline>'')"
    unfolding js_template_def js_template_plain_prefix [OF prompt_header_plain]
    using js_template_plain [OF t(2)] by (simp add: js_template_def prepend_def)
  have k: "docker_paths ''/w'' = Evaluates ()" by (simp add: docker_paths_def)
  show ?thesis
    unfolding runnerScript_def
    by (simp add: sample_submission_def tasksFile_def logFilePath_def e j k
          js_string_plain [OF p(1)] js_string_plain [OF p(2)] js_string_plain [OF p(3)]
          js_string_plain [OF p(4)] js_string_plain [OF p(5)] js_string_plain [OF p(6)]
          js_string_plain [OF p(7)] js_string_plain [OF p(8)]
          and_then_def sample_runner_config_def)
qed

text \<open>A prompt with a legacy octal escape gives a script that the runtime rejects.\<close>

lemma octal_prompt_rejected:
  "runnerScript octal_submission = SyntaxError"
proof -
  note p = sample_strings_plain
  have t0: "js_scan TemplateLit Plain (escapeForTemplate [CHR 0x5C, CHR ''1''] @ [CHR 0x0A])
              = SyntaxError"
    by (simp add: escapeForTemplate_def plain_step_def single_escape_def isDigit_def prepend_def)
  have t: "js_template (PROMPT_HEADER @ escapeForTemplate [CHR 0x5C, CHR ''1''] @ [CHR 0x0A])
             = SyntaxError"
    unfolding js_template_def js_template_plain_prefix [OF prompt_header_plain] t0
    by (simp add: prepend_def)
  have k: "docker_paths ''/w'' = Evaluates ()" by (simp add: docker_paths_def)
  show ?thesis
    unfolding runnerScript_def
    by (simp add: octal_submission_def sample_submission_def tasksFile_def logFilePath_def t k
          js_string_plain [OF p(1)] js_string_plain [OF p(2)] js_string_plain [OF p(3)]
          js_string_plain [OF p(4)] js_string_plain [OF p(5)] js_string_plain [OF p(6)]
          js_string_plain [OF p(7)] js_string_plain [OF p(8)]
          and_then_def)
qed

lemma octal_prompt_job:
  "submitJob octal_submission no_docker_env Map.empty st =
     Some ([ToastAnimated ''Starting Agent...'',
            WriteLedger [TaskEntry (newTask octal_submission)],
            ToastSuccess ''Agent started'', ScriptRejected],
           [''/w/.agentic-tasks.json'' \<mapsto>
              TaskArray [TaskEntry (newTask octal_submission)]])"
  unfolding submitJob_def
  by (simp add: octal_prompt_rejected handleSubmit_def createTask_def Let_def)
     (simp add: octal_submission_def sample_submission_def tasksFile_def)



lemma sample_image_ready: "ensureDockerImage sample_docker"
  by (simp add: ensureDockerImage_def sample_docker_def)

lemma timed_out_no_retry: "\<not> retries sample_docker timed_out_spawn sample_config"
  by code_simp

lemma timed_out_last_events:
  "first_end (cli_last_events sample_docker timed_out_spawn sample_config) = Some (Close None)"
  using timed_out_no_retry
  by (simp add: cli_last_events_def timed_out_spawn_def timed_out_events_def)





lemma createTask_ok:
  "lf \<noteq> Some NotArray \<Longrightarrow> createTask lf t = Inr (ledger_entries lf @ [TaskEntry t])"
  by (cases lf; cases "the lf") (simp_all add: createTask_def ledger_entries_def)

lemma handleSubmit_ok:
  assumes "sub_prompt v \<noteq> []" "sub_dir_exists v" "lf \<noteq> Some NotArray"
  shows "handleSubmit v lf =
           \<lparr>sub_trace =
              [ToastAnimated ''Starting Agent...'',
               WriteLedger (ledger_entries lf @ [TaskEntry (newTask v)]),
               ToastSuccess ''Agent started''],
            sub_ledger = Some (TaskArray (ledger_entries lf @ [TaskEntry (newTask v)])),
            sub_started = True\<rparr>"
  using assms by (simp add: handleSubmit_def createTask_ok)

lemma runnerMain_no_docker:
  "\<not> docker_info_ok env \<Longrightarrow>
   runnerMain env cfg lf st = runnerFail env cfg lf st ''Docker is not installed or not running''"
  by (simp add: runnerMain_def)



lemma updateTask_unparseable:
  "updateTask tid (Some Unparseable) s e =
     (Some Unparseable, [LogLine ''Failed to update task: SyntaxError''])"
  by (simp add: updateTask_def)

lemma runnerFinish_unparseable:
  "r_ledger (runnerFinish env cfg (Some Unparseable) st runs result) = Some Unparseable"
  by (simp add: runnerFinish_def updateTask_unparseable)

lemma runnerFail_unparseable:
  "r_ledger (runnerFail env cfg (Some Unparseable) st msg) = Some Unparseable"
  by (simp add: runnerFail_def updateTask_unparseable)

lemma runnerMain_unparseable:
  "r_ledger (runnerMain env cfg (Some Unparseable) st) = Some Unparseable"
  by (simp add: runnerMain_def runnerFinish_unparseable runnerFail_unparseable Let_def
           split: option.splits)

lemma sample_submit_facts:
  "sub_prompt sample_submission \<noteq> []" "sub_dir_exists sample_submission"
  "tasksFile sample_submission = ''/w/.agentic-tasks.json''"
  "logFilePath sample_submission = ''/w/.agentic-logs/1700000000000.log''"
  "sub_taskId sample_submission = ''1700000000000''"
  by (simp_all add: sample_submission_def tasksFile_def logFilePath_def)

lemma sample_config_facts:
  "r_taskId sample_runner_config = ''1700000000000''"
  "r_tasksFile sample_runner_config = ''/w/.agentic-tasks.json''"
  "r_logFile sample_runner_config = ''/w/.agentic-logs/1700000000000.log''"
  by (simp_all add: sample_runner_config_def)

text \<open>
  When the ledger already holds a record with the id of the job, the runner marks that
  record and the job's own record stays \<open>running\<close>; when it holds a \<open>null\<close>, the
  runner's update throws and nothing is written.
\<close>

lemma clash_marks_first_record:
  "submitJob sample_submission no_docker_env clash_ledger Map.empty =
     Some ([ToastAnimated ''Starting Agent...'',
            WriteLedger [TaskEntry (earlier_task\<lparr>task_id := ''1700000000000''\<rparr>),
                         TaskEntry (newTask sample_submission)],
            ToastSuccess ''Agent started'',
            LogLine ''Error: Docker is not installed or not running'',
            WriteLedger [TaskEntry (earlier_task\<lparr>task_id := ''1700000000000'',
                                      status := ''failed'', endTime := Some 1700000000500\<rparr>),
                         TaskEntry (newTask sample_submission)],
            Exit 1],
           [''/w/.agentic-tasks.json'' \<mapsto>
              TaskArray [TaskEntry (earlier_task\<lparr>task_id := ''1700000000000'',
                                      status := ''failed'', endTime := Some 1700000000500\<rparr>),
                         TaskEntry (newTask sample_submission)]])"
proof -
  have d: "\<not> docker_info_ok no_docker_env" "now no_docker_env = 1700000000500"
    by (simp_all add: no_docker_env_def)
  have l: "clash_ledger ''/w/.agentic-tasks.json''
             = Some (TaskArray [TaskEntry (earlier_task\<lparr>task_id := ''1700000000000''\<rparr>)])"
    by (simp add: clash_ledger_def)
  have h: "handleSubmit sample_submission (clash_ledger ''/w/.agentic-tasks.json'') =
           \<lparr>sub_trace =
              [ToastAnimated ''Starting Agent...'',
               WriteLedger [TaskEntry (earlier_task\<lparr>task_id := ''1700000000000''\<rparr>),
                            TaskEntry (newTask sample_submission)],
               ToastSuccess ''Agent started''],
            sub_ledger = Some (TaskArray [TaskEntry (earlier_task\<lparr>task_id := ''1700000000000''\<rparr>),
                            TaskEntry (newTask sample_submission)]),
            sub_started = True\<rparr>"
    using handleSubmit_ok [OF sample_submit_facts(1,2), of "clash_ledger ''/w/.agentic-tasks.json''"]
    by (simp add: l ledger_entries_def)
  have f: "findTask ''1700000000000'' [TaskEntry (earlier_task\<lparr>task_id := ''1700000000000''\<rparr>),
                            TaskEntry (newTask sample_submission)] = Found 0"
    by simp
  show ?thesis
    unfolding submitJob_def
    by (simp add: sample_submit_facts(3,4) h sample_script sample_config_facts Let_def
          runnerMain_no_docker [OF d(1)] runnerFail_def updateTask_def f markEntry_def d(2))
       (simp add: clash_ledger_def)
qed

lemma null_entry_blocks_update:
  "submitJob sample_submission no_docker_env null_ledger Map.empty =
     Some ([ToastAnimated ''Starting Agent...'',
            WriteLedger [NullEntry, TaskEntry (newTask sample_submission)],
            ToastSuccess ''Agent started'',
            LogLine ''Error: Docker is not installed or not running'',
            LogLine ''Failed to update task: TypeError'',
            Exit 1],
           [''/w/.agentic-tasks.json'' \<mapsto>
              TaskArray [NullEntry, TaskEntry (newTask sample_submission)]])"
proof -
  have d: "\<not> docker_info_ok no_docker_env" "now no_docker_env = 1700000000500"
    by (simp_all add: no_docker_env_def)
  have l: "null_ledger ''/w/.agentic-tasks.json'' = Some (TaskArray [NullEntry])"
    by (simp add: null_ledger_def)
  have h: "handleSubmit sample_submission (null_ledger ''/w/.agentic-tasks.json'') =
           \<lparr>sub_trace =
              [ToastAnimated ''Starting Agent...'',
               WriteLedger [NullEntry, TaskEntry (newTask sample_submission)],
               ToastSuccess ''Agent started''],
            sub_ledger = Some (TaskArray [NullEntry, TaskEntry (newTask sample_submission)]),
            sub_started = True\<rparr>"
    using handleSubmit_ok [OF sample_submit_facts(1,2), of "null_ledger ''/w/.agentic-tasks.json''"]
    by (simp add: l ledger_entries_def)
  show ?thesis
    unfolding submitJob_def
    by (simp add: sample_submit_facts(3,4) h sample_script sample_config_facts Let_def
          runnerMain_no_docker [OF d(1)] runnerFail_def updateTask_def)
       (simp add: null_ledger_def)
qed









section \<open>Facts about Base64\<close>

lemma alphabet_length: "length b64_alphabet = 64"
  by (simp add: b64_alphabet_def)

lemma alphabet_distinct: "distinct b64_alphabet"
  by (simp add: b64_alphabet_def)

lemma findIndex_None: "(findIndex P xs = None) \<longleftrightarrow> (\<forall>x \<in> set xs. \<not> P x)"
  by (induction xs) auto

lemma findIndex_nth:
  "distinct xs \<Longrightarrow> n < length xs \<Longrightarrow> findIndex (\<lambda>x. x = xs ! n) xs = Some n"
proof (induction xs arbitrary: n)
  case Nil
  then show ?case by simp
next
  case (Cons a xs)
  show ?case
  proof (cases n)
    case 0
    then show ?thesis by simp
  next
    case (Suc m)
    with Cons.prems have m: "m < length xs" "distinct xs" "a \<notin> set xs" by auto
    then have "xs ! m \<in> set xs" by simp
    with m have "a \<noteq> xs ! m" by auto
    then show ?thesis using Suc Cons.IH [OF m(2) m(1)] by simp
  qed
qed

lemma b64_value_char: "n < 64 \<Longrightarrow> b64_value (b64_char n) = Some n"
  unfolding b64_value_def b64_char_def
  by (rule findIndex_nth) (simp_all add: alphabet_distinct alphabet_length)

lemma b64_char_in: "n < 64 \<Longrightarrow> b64_char n \<in> set b64_alphabet"
  by (simp add: b64_char_def alphabet_length)

lemma not_in_alphabet:
  "CHR ''='' \<notin> set b64_alphabet" "CHR 0x27 \<notin> set b64_alphabet" "CHR ''-'' \<notin> set b64_alphabet"
  "CHR ''_'' \<notin> set b64_alphabet" "\<And>c. isSpace c \<Longrightarrow> c \<notin> set b64_alphabet"
  by (auto simp: b64_alphabet_def isSpace_def)

lemma sextet_lt:
  "x < 256 \<Longrightarrow> sextet1 x < 64" "y < 256 \<Longrightarrow> sextet2 x y < 64" "z < 256 \<Longrightarrow> sextet3 y z < 64"
  "sextet4 z < 64" "sextet2 x 0 < 64" "sextet3 y 0 < 64"
proof -
  show "x < 256 \<Longrightarrow> sextet1 x < 64" by (simp add: sextet1_def)
  have a: "x mod 4 * 16 \<le> 48"
  proof -
    have "x mod 4 \<le> 3" by simp
    then show ?thesis by simp
  qed
  have b: "y mod 16 * 4 \<le> 60"
  proof -
    have "y mod 16 \<le> 15" by simp
    then show ?thesis by simp
  qed
  show "y < 256 \<Longrightarrow> sextet2 x y < 64"
  proof -
    assume "y < 256"
    then have "y div 16 < 16" by simp
    with a show ?thesis by (simp add: sextet2_def)
  qed
  show "z < 256 \<Longrightarrow> sextet3 y z < 64"
  proof -
    assume "z < 256"
    then have "z div 64 < 4" by simp
    with b show ?thesis by (simp add: sextet3_def)
  qed
  show "sextet4 z < 64" by (simp add: sextet4_def)
  show "sextet2 x 0 < 64" using a by (simp add: sextet2_def)
  show "sextet3 y 0 < 64" using b by (simp add: sextet3_def)
qed

lemma join1: "y < 256 \<Longrightarrow> sextet1 x * 4 + sextet2 x y div 16 = x"
proof -
  assume "y < 256"
  then have "y div 16 < 16" by simp
  then have "(x mod 4 * 16 + y div 16) div 16 = x mod 4" by simp
  then show ?thesis by (simp add: sextet1_def sextet2_def)
qed

lemma join2: "y < 256 \<Longrightarrow> z < 256 \<Longrightarrow> sextet2 x y mod 16 * 16 + sextet3 y z div 4 = y"
proof -
  assume "y < 256" "z < 256"
  then have "y div 16 < 16" "z div 64 < 4" by simp_all
  then have "(x mod 4 * 16 + y div 16) mod 16 = y div 16"
            "(y mod 16 * 4 + z div 64) div 4 = y mod 16" by simp_all
  then show ?thesis by (simp add: sextet2_def sextet3_def)
qed

lemma join3: "z < 256 \<Longrightarrow> sextet3 y z mod 4 * 64 + sextet4 z = z"
proof -
  assume "z < 256"
  then have "z div 64 < 4" by simp
  then have "(y mod 16 * 4 + z div 64) mod 4 = z div 64" by simp
  then show ?thesis by (simp add: sextet3_def sextet4_def)
qed

lemma decode_sextets_inverse: "decode_sextets (sextets bytes) = bytes"
proof (induction bytes rule: sextets.induct)
  case 1
  then show ?case by simp
next
  case (2 a)
  show ?case by (simp add: join1)
next
  case (3 a b)
  show ?case by (simp add: join1 join2)
next
  case (4 a b c rest)
  then show ?case by (simp add: join1 join2 join3)
qed

lemma b64_char_plain:
  assumes "n < 64"
  shows "b64_char n \<noteq> CHR ''=''" "b64_char n \<noteq> CHR 0x27" "\<not> isSpace (b64_char n)"
        "b64_char n \<noteq> CHR 0x0A" "node_b64_value (b64_char n) = Some n"
proof -
  have m: "b64_char n \<in> set b64_alphabet" using assms by (rule b64_char_in)
  show "b64_char n \<noteq> CHR ''=''" using m not_in_alphabet(1) by metis
  show "b64_char n \<noteq> CHR 0x27" using m not_in_alphabet(2) by metis
  show s: "\<not> isSpace (b64_char n)" using m not_in_alphabet(5) by metis
  have "isSpace (CHR 0x0A)" by (simp add: isSpace_def)
  then show "b64_char n \<noteq> CHR 0x0A" using s by metis
  have "b64_char n \<noteq> CHR ''-''" "b64_char n \<noteq> CHR ''_''"
    using m not_in_alphabet(3,4) by metis+
  then show "node_b64_value (b64_char n) = Some n"
    using assms by (simp add: node_b64_value_def b64_value_char)
qed

lemma pad_value: "b64_value (CHR ''='') = None"
  using not_in_alphabet(1) by (auto simp: b64_value_def findIndex_None)

lemma fromBase64_quad:
  assumes "p < 64" "q < 64" "r < 64" "s < 64"
  shows "fromBase64 (b64_char p # b64_char q # b64_char r # b64_char s # rest) =
           map_option (\<lambda>bytes. [char_of (p * 4 + q div 16), char_of (q mod 16 * 16 + r div 4),
                                 char_of (r mod 4 * 64 + s)] @ bytes) (fromBase64 rest)"
  using assms by (cases "fromBase64 rest") (simp_all add: b64_value_char b64_char_plain(1))

lemma fromBase64_pad1:
  assumes "p < 64" "q < 64" "r < 64"
  shows "fromBase64 [b64_char p, b64_char q, b64_char r, CHR ''=''] =
           Some [char_of (p * 4 + q div 16), char_of (q mod 16 * 16 + r div 4)]"
  using assms by (simp add: b64_value_char b64_char_plain(1))

lemma fromBase64_pad2:
  assumes "p < 64" "q < 64"
  shows "fromBase64 [b64_char p, b64_char q, CHR ''='', CHR ''=''] =
           Some [char_of (p * 4 + q div 16)]"
  using assms by (simp add: b64_value_char)

lemma fromBase64_inverse: "fromBase64 (toBase64 bytes) = Some bytes"
proof (induction bytes rule: toBase64.induct)
  case 1
  then show ?case by simp
next
  case (2 a)
  show ?case
    by (simp add: fromBase64_pad2 sextet_lt join1 del: fromBase64.simps)
next
  case (3 a b)
  show ?case
    by (simp add: fromBase64_pad1 sextet_lt join1 join2 del: fromBase64.simps)
next
  case (4 a b c rest)
  then show ?case
    by (simp add: fromBase64_quad sextet_lt join1 join2 join3 del: fromBase64.simps)
qed

lemma node_sextets:
  "List.map_filter node_b64_value (takeWhile (\<lambda>c. c \<noteq> CHR ''='') (toBase64 bytes)) = sextets bytes"
proof (induction bytes rule: toBase64.induct)
  case 1
  then show ?case by (simp add: map_filter_simps)
next
  case (2 a)
  show ?case
    by (simp add: map_filter_simps b64_char_plain sextet_lt)
next
  case (3 a b)
  show ?case
    by (simp add: map_filter_simps b64_char_plain sextet_lt)
next
  case (4 a b c rest)
  then show ?case
    by (simp add: map_filter_simps b64_char_plain sextet_lt)
qed

lemma toBase64_plain:
  "c \<in> set (toBase64 bytes) \<Longrightarrow> c \<noteq> CHR 0x27 \<and> c \<noteq> CHR 0x0A \<and> \<not> isSpace c"
proof (induction bytes rule: toBase64.induct)
  case 1
  then show ?case by simp
next
  case (2 a)
  have "\<not> isSpace (CHR ''='')" by (simp add: isSpace_def)
  with 2 show ?case
    by (auto simp: b64_char_plain sextet_lt)
next
  case (3 a b)
  have "\<not> isSpace (CHR ''='')" by (simp add: isSpace_def)
  with 3 show ?case
    by (auto simp: b64_char_plain sextet_lt)
next
  case (4 a b c rest)
  then show ?case
    by (auto simp: b64_char_plain sextet_lt)
qed

lemma toBase64_length: "length (toBase64 bytes) = 4 * ((length bytes + 2) div 3)"
proof (induction bytes rule: toBase64.induct)
  case (4 a b c rest)
  have "(length (a # b # c # rest) + 2) div 3 = (length rest + 2) div 3 + 1" by simp
  then show ?case using 4 by simp
qed simp_all

lemma drop4: "drop (4 + k) (a # b # c # d # xs) = drop k xs"
  by (simp add: numeral_eq_Suc)

lemma take4: "take (4 + k) (a # b # c # d # xs) = a # b # c # d # take k xs"
  by (simp add: numeral_eq_Suc)

lemma drop3: "drop (3 + k) (a # b # c # xs) = drop k xs"
  by (simp add: numeral_eq_Suc)

lemma take3: "take (3 + k) (a # b # c # xs) = a # b # c # take k xs"
  by (simp add: numeral_eq_Suc)

lemma toBase64_drop: "drop (4 * n) (toBase64 bytes) = toBase64 (drop (3 * n) bytes)"
proof (induction n arbitrary: bytes)
  case 0
  then show ?case by simp
next
  case (Suc n)
  show ?case
  proof (cases bytes rule: toBase64.cases)
    case 1
    then show ?thesis by simp
  next
    case (2 a)
    then show ?thesis by simp
  next
    case (3 a b)
    then show ?thesis by simp
  next
    case (4 a b c rest)
    have "drop (4 * Suc n) (toBase64 bytes) = drop (4 * n) (toBase64 rest)"
      using 4 by (simp add: drop4)
    also have "\<dots> = toBase64 (drop (3 * n) rest)" by (rule Suc.IH)
    also have "\<dots> = toBase64 (drop (3 * Suc n) bytes)" using 4 by (simp add: drop3)
    finally show ?thesis .
  qed
qed

lemma toBase64_take: "take (4 * n) (toBase64 bytes) = toBase64 (take (3 * n) bytes)"
proof (induction n arbitrary: bytes)
  case 0
  then show ?case by simp
next
  case (Suc n)
  show ?case
  proof (cases bytes rule: toBase64.cases)
    case 1
    then show ?thesis by simp
  next
    case (2 a)
    then show ?thesis by simp
  next
    case (3 a b)
    then show ?thesis by simp
  next
    case (4 a b c rest)
    have "take (4 * Suc n) (toBase64 bytes) =
            take 4 (toBase64 bytes) @ take (4 * n) (toBase64 rest)"
      using 4 by (simp add: take4)
    also have "\<dots> = take 4 (toBase64 bytes) @ toBase64 (take (3 * n) rest)"
      by (simp only: Suc.IH)
    also have "\<dots> = toBase64 (take (3 * Suc n) bytes)" using 4 by (simp add: take3)
    finally show ?thesis .
  qed
qed

lemma filter_wrap76: "\<forall>c \<in> set s. c \<noteq> CHR 0x0A \<Longrightarrow> filter (\<lambda>c. \<not> isSpace c) (wrap76 s) = filter (\<lambda>c. \<not> isSpace c) s"
proof (induction s rule: wrap76.induct)
  case (1 s)
  show ?case
  proof (cases "s = []")
    case True
    then show ?thesis by (subst wrap76.simps) simp
  next
    case False
    have sp: "isSpace (CHR 0x0A)" by (simp add: isSpace_def)
    have "\<forall>c \<in> set (drop 76 s). c \<noteq> CHR 0x0A" using 1(2) by (meson in_set_dropD)
    then have ih: "filter (\<lambda>c. \<not> isSpace c) (wrap76 (drop 76 s)) = filter (\<lambda>c. \<not> isSpace c) (drop 76 s)"
      using 1(1) False by blast
    have "wrap76 s = take 76 s @ [CHR 0x0A] @ wrap76 (drop 76 s)"
      using False by (subst wrap76.simps) simp
    then have "filter (\<lambda>c. \<not> isSpace c) (wrap76 s) =
               filter (\<lambda>c. \<not> isSpace c) (take 76 s) @ filter (\<lambda>c. \<not> isSpace c) (drop 76 s)"
      using ih sp by simp
    also have "\<dots> = filter (\<lambda>c. \<not> isSpace c) s"
      by (simp only: filter_append [symmetric] append_take_drop_id)
    finally show ?thesis .
  qed
qed

lemma filter_dropWhile: "filter (\<lambda>c. \<not> P c) (dropWhile P s) = filter (\<lambda>c. \<not> P c) s"
  by (induction s) auto

lemma filter_trim: "filter (\<lambda>c. \<not> isSpace c) (trim s) = filter (\<lambda>c. \<not> isSpace c) s"
proof -
  have "filter (\<lambda>c. \<not> isSpace c) (trim s) =
        rev (filter (\<lambda>c. \<not> isSpace c) (dropWhile isSpace (rev (dropWhile isSpace s))))"
    by (simp add: trim_def rev_filter)
  also have "\<dots> = rev (filter (\<lambda>c. \<not> isSpace c) (rev (dropWhile isSpace s)))"
    by (simp only: filter_dropWhile)
  also have "\<dots> = filter (\<lambda>c. \<not> isSpace c) (dropWhile isSpace s)"
    by (simp add: rev_filter)
  also have "\<dots> = filter (\<lambda>c. \<not> isSpace c) s" by (rule filter_dropWhile)
  finally show ?thesis .
qed

lemma space_no_value: "isSpace c \<Longrightarrow> node_b64_value c = None \<and> c \<noteq> CHR ''=''"
proof -
  assume s: "isSpace c"
  then have "c \<notin> set b64_alphabet" by (rule not_in_alphabet(5))
  then have "b64_value c = None" by (auto simp: b64_value_def findIndex_None)
  moreover have "c \<noteq> CHR ''-''" "c \<noteq> CHR ''_''" "c \<noteq> CHR ''=''"
    using s by (auto simp: isSpace_def)
  ultimately show ?thesis by (simp add: node_b64_value_def)
qed

lemma skip_spaces:
  "List.map_filter node_b64_value (takeWhile (\<lambda>c. c \<noteq> CHR ''='') (filter (\<lambda>c. \<not> isSpace c) s)) =
   List.map_filter node_b64_value (takeWhile (\<lambda>c. c \<noteq> CHR ''='') s)"
proof (induction s)
  case Nil
  then show ?case by simp
next
  case (Cons c s)
  show ?case
  proof (cases "isSpace c")
    case True
    then show ?thesis using Cons space_no_value [OF True] by (simp add: map_filter_simps)
  next
    case False
    then show ?thesis using Cons
      by (cases "c = CHR ''=''") (simp_all add: map_filter_simps split: option.splits)
  qed
qed

lemma filter_plain: "\<forall>c \<in> set s. \<not> isSpace c \<Longrightarrow> filter (\<lambda>c. \<not> isSpace c) s = s"
  by (induction s) auto

lemma bufferFromBase64_wrapped:
  "bufferFromBase64 (trim (wrap76 (toBase64 bytes))) = bytes"
proof -
  let ?enc = "toBase64 bytes"
  have nl: "\<forall>c \<in> set ?enc. c \<noteq> CHR 0x0A" using toBase64_plain by blast
  have pl: "\<forall>c \<in> set ?enc. \<not> isSpace c" using toBase64_plain by blast
  have f: "filter (\<lambda>c. \<not> isSpace c) (trim (wrap76 ?enc)) = ?enc"
    by (simp only: filter_trim filter_wrap76 [OF nl] filter_plain [OF pl])
  have "List.map_filter node_b64_value (takeWhile (\<lambda>c. c \<noteq> CHR ''='') (trim (wrap76 ?enc))) =
        List.map_filter node_b64_value (takeWhile (\<lambda>c. c \<noteq> CHR ''='') ?enc)"
    using skip_spaces [of "trim (wrap76 ?enc)"] f by simp
  then show ?thesis by (simp add: bufferFromBase64_def node_sextets decode_sextets_inverse)
qed

section \<open>Facts about the sandbox and the transfer\<close>

lemma escape_plain: "CHR 0x27 \<notin> set s \<Longrightarrow> escapeSingleQuotes s = s"
  by (induction s) (auto simp: escapeSingleQuotes_def)

lemma escape_Cons:
  "escapeSingleQuotes (c # w) =
     (if c = CHR 0x27 then [CHR 0x27, CHR 0x22, CHR 0x27, CHR 0x22, CHR 0x27] else [c])
       @ escapeSingleQuotes w"
  by (simp add: escapeSingleQuotes_def)

lemma sq_word_close:
  assumes "\<And>t. rest \<noteq> CHR 0x22 # CHR 0x27 # CHR 0x22 # CHR 0x27 # t"
  shows "sq_word (CHR 0x27 # rest) = Some ([], rest)"
  using assms by (auto split: list.splits)

lemma sq_word_escaped:
  assumes "\<And>t. rest \<noteq> CHR 0x22 # CHR 0x27 # CHR 0x22 # CHR 0x27 # t"
  shows "sq_word (escapeSingleQuotes w @ CHR 0x27 # rest) = Some (w, rest)"
proof (induction w)
  case Nil
  show ?case using sq_word_close [OF assms] by (simp add: escapeSingleQuotes_def)
next
  case (Cons c w)
  show ?case
  proof (cases "c = CHR 0x27")
    case True
    then show ?thesis using Cons by (simp add: escape_Cons)
  next
    case False
    then show ?thesis using Cons by (simp add: escape_Cons)
  qed
qed

lemma strip_prefix_append: "strip_prefix p (p @ s) = Some s"
  by (simp add: strip_prefix_def startsWith_iff)

lemma strip_prefix_differs: "a \<noteq> b \<Longrightarrow> strip_prefix (a # p) (b # s) = None"
  by (simp add: strip_prefix_def)

lemma code_response: "code (response n out) = n"
  by (simp add: code_def response_def)

lemma shell_truncate:
  "sandbox_shell fs (mkdir_truncate_cmd (escapeSingleQuotes dir) (escapeSingleQuotes path)) = (fs(path \<mapsto> []), response 0 [])"
proof -
  have c: "mkdir_truncate_cmd (escapeSingleQuotes dir) (escapeSingleQuotes path) =
             (''mkdir -p '' @ sq) @ escapeSingleQuotes dir @ CHR 0x27
               # (('' && : > '' @ sq) @ escapeSingleQuotes path @ CHR 0x27 # [])"
    by (simp add: mkdir_truncate_cmd_def sq_def)
  have w1: "sq_word (escapeSingleQuotes dir @ CHR 0x27
               # (('' && : > '' @ sq) @ escapeSingleQuotes path @ CHR 0x27 # []))
            = Some (dir, ('' && : > '' @ sq) @ escapeSingleQuotes path @ CHR 0x27 # [])"
    by (rule sq_word_escaped) simp
  have w2: "sq_word (escapeSingleQuotes path @ CHR 0x27 # []) = Some (path, [])"
    by (rule sq_word_escaped) simp
  have "sh_truncate fs (mkdir_truncate_cmd (escapeSingleQuotes dir) (escapeSingleQuotes path)) = Some (fs(path \<mapsto> []), response 0 [])"
    unfolding sh_truncate_def c by (simp only: strip_prefix_append w1 w2 option.case prod.case list.case)
  then show ?thesis by (simp add: sandbox_shell_def)
qed

lemma shell_append:
  assumes "fromBase64 (filter (\<lambda>c. c \<noteq> CHR 0x0A) (chunk @ [CHR 0x0A])) = Some bytes"
  shows "sandbox_shell fs (echo_append_cmd (escapeSingleQuotes chunk) (escapeSingleQuotes path)) =
           (fs(path \<mapsto> file_or_empty fs path @ bytes), response 0 [])"
proof -
  have c: "echo_append_cmd (escapeSingleQuotes chunk) (escapeSingleQuotes path) =
             (''echo '' @ sq) @ escapeSingleQuotes chunk @ CHR 0x27
               # (('' | base64 -d >> '' @ sq) @ escapeSingleQuotes path @ CHR 0x27 # [])"
    by (simp add: echo_append_cmd_def sq_def)
  have w1: "sq_word (escapeSingleQuotes chunk @ CHR 0x27
               # (('' | base64 -d >> '' @ sq) @ escapeSingleQuotes path @ CHR 0x27 # []))
            = Some (chunk, ('' | base64 -d >> '' @ sq) @ escapeSingleQuotes path @ CHR 0x27 # [])"
    by (rule sq_word_escaped) simp
  have w2: "sq_word (escapeSingleQuotes path @ CHR 0x27 # []) = Some (path, [])"
    by (rule sq_word_escaped) simp
  have t: "sh_truncate fs (echo_append_cmd (escapeSingleQuotes chunk) (escapeSingleQuotes path)) = None"
    by (simp add: sh_truncate_def echo_append_cmd_def sq_def strip_prefix_differs)
  have "sh_append fs (echo_append_cmd (escapeSingleQuotes chunk) (escapeSingleQuotes path)) =
          Some (fs(path \<mapsto> file_or_empty fs path @ bytes), response 0 [])"
    unfolding sh_append_def c
    by (simp only: strip_prefix_append w1 w2 assms option.case prod.case list.case)
  then show ?thesis using t by (simp add: sandbox_shell_def)
qed

lemma shell_base64:
  assumes "fs path = Some bytes"
  shows "sandbox_shell fs (base64_cmd (escapeSingleQuotes path)) = (fs, response 0 (wrap76 (toBase64 bytes)))"
proof -
  have c: "base64_cmd (escapeSingleQuotes path) = (''base64 '' @ sq) @ escapeSingleQuotes path @ CHR 0x27 # []"
    by (simp add: base64_cmd_def sq_def)
  have w: "sq_word (escapeSingleQuotes path @ CHR 0x27 # []) = Some (path, [])"
    by (rule sq_word_escaped) simp
  have t: "sh_truncate fs (base64_cmd (escapeSingleQuotes path)) = None"
    by (simp add: sh_truncate_def base64_cmd_def sq_def strip_prefix_differs)
  have a: "sh_append fs (base64_cmd (escapeSingleQuotes path)) = None"
    by (simp add: sh_append_def base64_cmd_def sq_def strip_prefix_differs)
  have "sh_base64 fs (base64_cmd (escapeSingleQuotes path)) = Some (fs, response 0 (wrap76 (toBase64 bytes)))"
    unfolding sh_base64_def c
    by (simp only: strip_prefix_append w assms option.case prod.case list.case)
  then show ?thesis using t a by (simp add: sandbox_shell_def)
qed

lemma toBase64_no_quote: "CHR 0x27 \<notin> set (toBase64 bytes)"
  using toBase64_plain by blast

lemma decode_echoed:
  "fromBase64 (filter (\<lambda>c. c \<noteq> CHR 0x0A) (toBase64 bytes @ [CHR 0x0A])) = Some bytes"
proof -
  have "\<forall>c \<in> set (toBase64 bytes). c \<noteq> CHR 0x0A" using toBase64_plain by blast
  then have "filter (\<lambda>c. c \<noteq> CHR 0x0A) (toBase64 bytes) = toBase64 bytes"
    by (induction "toBase64 bytes") (simp_all add: filter_id_conv)
  then show ?thesis by (simp add: fromBase64_inverse)
qed

text \<open>The chunk of the encoded text at index \<open>4 * k\<close> encodes the next 45000 bytes.\<close>

lemma chunk_encodes:
  "slice (toBase64 bytes) (4 * k) (4 * k + CHUNK_SIZE) = toBase64 (take 45000 (drop (3 * k) bytes))"
proof -
  have "slice (toBase64 bytes) (4 * k) (4 * k + CHUNK_SIZE) =
          take (4 * 15000) (drop (4 * k) (toBase64 bytes))"
    by (simp add: slice_def CHUNK_SIZE_def)
  also have "\<dots> = toBase64 (take (3 * 15000) (drop (3 * k) bytes))"
    by (simp only: toBase64_drop toBase64_take)
  finally show ?thesis by simp
qed

lemma pushChunks_writes:
  assumes "fs path = Some (take (3 * k) bytes)"
  shows "\<exists>fs'. pushChunks sandbox_shell lcl (escapeSingleQuotes path) (toBase64 bytes) (4 * k) fs
                 = Inr fs' \<and> fs' path = Some bytes"
  using assms
proof (induction "length (toBase64 bytes) - 4 * k" arbitrary: k fs rule: less_induct)
  case less
  show ?case
  proof (cases "4 * k < length (toBase64 bytes)")
    case False
    then have "4 * ((length bytes + 2) div 3) \<le> 4 * k" by (simp add: toBase64_length)
    then have "length bytes \<le> 3 * k" by simp
    then have "take (3 * k) bytes = bytes" by simp
    with less.prems False show ?thesis by (subst pushChunks.simps) simp
  next
    case True
    let ?part = "take 45000 (drop (3 * k) bytes)"
    let ?chunk = "toBase64 ?part"
    let ?fs' = "fs(path \<mapsto> take (3 * k) bytes @ ?part)"
    have esc: "escapeSingleQuotes ?chunk = ?chunk"
      by (rule escape_plain) (rule toBase64_no_quote)
    have run: "sandbox_shell fs (echo_append_cmd ?chunk (escapeSingleQuotes path))
                 = (?fs', response 0 [])"
      using shell_append [OF decode_echoed, of fs ?part path] less.prems
      by (simp add: file_or_empty_def esc)
    have step: "pushChunks sandbox_shell lcl (escapeSingleQuotes path) (toBase64 bytes) (4 * k) fs =
                pushChunks sandbox_shell lcl (escapeSingleQuotes path) (toBase64 bytes)
                  (4 * k + CHUNK_SIZE) ?fs'"
      using True
      by (subst pushChunks.simps) (simp add: chunk_encodes esc run code_response Let_def)
    have k': "4 * k + CHUNK_SIZE = 4 * (k + 15000)" by (simp add: CHUNK_SIZE_def)
    have "take (3 * k) bytes @ ?part = take (3 * (k + 15000)) bytes"
      by (simp add: take_add)
    then have inv: "?fs' path = Some (take (3 * (k + 15000)) bytes)" by simp
    have "length (toBase64 bytes) - 4 * (k + 15000) < length (toBase64 bytes) - 4 * k"
      using True by simp
    from less.hyps [of "k + 15000" ?fs', OF this inv] show ?thesis by (simp only: step k')
  qed
qed

lemma pushFile_writes:
  assumes "lfs lcl = Some bytes"
  shows "\<exists>fs'. pushFile sandbox_shell lfs (lcl, remote) fs = Inr fs' \<and> fs' remote = Some bytes"
proof -
  have "(fs(remote \<mapsto> [])) remote = Some (take (3 * 0) bytes)" by simp
  with pushChunks_writes [where fs = "fs(remote \<mapsto> [])" and path = remote and k = 0
                             and bytes = bytes and lcl = lcl]
  show ?thesis using assms by (simp add: pushFile_def shell_truncate Let_def)
qed

lemma pullFile_reads:
  assumes "fs remote = Some bytes"
  shows "pullFile sandbox_shell (remote, lcl) lfs fs = Inr (lfs(lcl \<mapsto> bytes), fs)"
proof -
  let ?out = "wrap76 (toBase64 bytes)"
  have d: "str_or (Some ?out) (str_or None []) = ?out" by (simp add: str_or_def)
  show ?thesis
    using shell_base64 [where fs = fs and path = remote and bytes = bytes] assms
    by (simp add: pullFile_def Let_def code_response)
       (simp add: response_def d bufferFromBase64_wrapped)
qed

lemma one_chunk_sizes:
  "length (toBase64 []) = 0" "length (toBase64 ''x'') = 4"
  "length (toBase64 (replicate 45000 (CHR ''x''))) = CHUNK_SIZE"
  "length (toBase64 (replicate 45001 (CHR ''x''))) = CHUNK_SIZE + 4"
  by (simp_all add: toBase64_length CHUNK_SIZE_def)

lemma pushChunks_fails:
  assumes "i < length b64"
    and "code (snd (run r (echo_append_cmd (escapeSingleQuotes (slice b64 i (i + CHUNK_SIZE))) remote))) \<noteq> 0"
  shows "pushChunks run lcl remote b64 i r = Inl (PushFailed lcl)"
  using assms by (subst pushChunks.simps) (simp add: Let_def)

lemma failing_push:
  "pushFile (exec failing_provider) [''a.txt'' \<mapsto> ''hi''] (''a.txt'', ''/tmp/a.txt'') ()
     = Inl (PushFailed ''a.txt'')"
proof -
  have "0 < length (toBase64 ''hi'')" by (simp add: toBase64_length)
  then show ?thesis
    by (simp add: pushFile_def Let_def failing_provider_def pushChunks_fails code_response
             del: toBase64.simps)
qed

section \<open>Claims\<close>

text \<open>
  C6. Refusal detection is case-insensitive substring containment against the fixed
  signature list: an output is classified as a refusal exactly when its lower-cased form
  contains the lower-cased form of some signature, in the command-line tool and, with its
  longer list, in the runner script. In particular every output that contains
  \<open>I CANNOT ASSIST\<close> is classified as a refusal by both.
\<close>

theorem detectRefusal_substring:
  "(detectRefusal out \<longleftrightarrow>
      (\<exists>p \<in> set REFUSAL_PATTERNS. \<exists>pre post.
          toLowerCase out = pre @ toLowerCase p @ post))
   \<and> (runnerDetectRefusal out \<longleftrightarrow>
      (\<exists>p \<in> set RUNNER_REFUSAL_PATTERNS. \<exists>pre post.
          toLowerCase out = pre @ toLowerCase p @ post))
   \<and> detectRefusal (before @ ''I CANNOT ASSIST'' @ after)
   \<and> runnerDetectRefusal (before @ ''I CANNOT ASSIST'' @ after)"
proof (intro conjI)
  show "detectRefusal out \<longleftrightarrow>
      (\<exists>p \<in> set REFUSAL_PATTERNS. \<exists>pre post.
          toLowerCase out = pre @ toLowerCase p @ post)"
    by (simp only: detectRefusal_def detectRefusalWith_iff)
  show "runnerDetectRefusal out \<longleftrightarrow>
      (\<exists>p \<in> set RUNNER_REFUSAL_PATTERNS. \<exists>pre post.
          toLowerCase out = pre @ toLowerCase p @ post)"
    by (simp only: runnerDetectRefusal_def detectRefusalWith_iff)
  have l: "toLowerCase (before @ ''I CANNOT ASSIST'' @ after) =
        toLowerCase before @ toLowerCase ''I cannot assist'' @ toLowerCase after"
    by (simp only: toLowerCase_append cannot_assist_lower)
  then show "detectRefusal (before @ ''I CANNOT ASSIST'' @ after)"
    unfolding detectRefusal_def detectRefusalWith_iff
    using cannot_assist_pattern by blast
  have "''I cannot assist'' \<in> set RUNNER_REFUSAL_PATTERNS"
    using cannot_assist_pattern by (simp add: RUNNER_REFUSAL_PATTERNS_def)
  with l show "runnerDetectRefusal (before @ ''I CANNOT ASSIST'' @ after)"
    unfolding runnerDetectRefusal_def detectRefusalWith_iff by blast
qed

theorem detectRefusal_substring_witness:
  "detectRefusal ''Sorry, I CANNOT ASSIST with that.''
   \<and> (\<exists>p \<in> set REFUSAL_PATTERNS. \<exists>pre post.
          toLowerCase ''Sorry, I CANNOT ASSIST with that.'' = pre @ toLowerCase p @ post)"
proof -
  have d: "detectRefusal (''Sorry, '' @ ''I CANNOT ASSIST'' @ '' with that.'')"
    using detectRefusal_substring
            [where out = "''x''" and before = "''Sorry, ''" and after = "'' with that.''"]
    by blast
  then have d': "detectRefusal ''Sorry, I CANNOT ASSIST with that.''" by simp
  with detectRefusal_substring
         [where out = "''Sorry, I CANNOT ASSIST with that.''" and before = "[]" and after = "[]"]
  show ?thesis by blast
qed


text \<open>
  C7. The harvest never overwrites an entry of the tool store: a name that is in the
  store before the harvest has the same file under it afterwards, whatever the workspace
  holds under that name (first write wins).
\<close>

theorem collectTools_first_write_wins:
  "st name = Some t \<Longrightarrow> fst (collectTools ws st) name = Some t"
  unfolding collectTools_def by (rule loop_keeps_existing)

theorem collectTools_first_write_wins_witness:
  "[''fizzbuzz.py'' \<mapsto> \<lparr>content = ''old'', mode = 420\<rparr>] ''fizzbuzz.py''
      = Some \<lparr>content = ''old'', mode = 420\<rparr>
   \<and> fst (collectTools [(''fizzbuzz.py'', IsFile ''new'')]
             [''fizzbuzz.py'' \<mapsto> \<lparr>content = ''old'', mode = 420\<rparr>]) ''fizzbuzz.py''
      = Some \<lparr>content = ''old'', mode = 420\<rparr>"
  using collectTools_first_write_wins
          [of "[''fizzbuzz.py'' \<mapsto> \<lparr>content = ''old'', mode = 420\<rparr>]" "''fizzbuzz.py''"
              "\<lparr>content = ''old'', mode = 420\<rparr>" "[(''fizzbuzz.py'', IsFile ''new'')]"]
  by simp

text \<open>
  C10. Harvest exclusion is substring containment anywhere in the file name: a name that
  contains one of the exclude patterns at any position is never copied into the tool
  store, whatever its extension; the store has under that name what it had before.
\<close>

theorem collectTools_excludes_by_substring:
  "\<exists>p \<in> set excludePatterns. \<exists>a b. name = a @ p @ b \<Longrightarrow>
   fst (collectTools ws st) name = st name"
  unfolding collectTools_def
  by (rule loop_skips_excluded) (simp add: list_ex_iff includes_iff)

theorem collectTools_excludes_by_substring_witness:
  "(\<exists>p \<in> set excludePatterns. \<exists>a b. ''my.github-helper.py'' = a @ p @ b)
   \<and> endsWith ''my.github-helper.py'' ''.py''
   \<and> fst (collectTools [(''my.github-helper.py'', IsFile ''print(1)'')] Map.empty)
        ''my.github-helper.py'' = None"
proof -
  have "''.git'' \<in> set excludePatterns" by (simp add: excludePatterns_def)
  moreover have "''my.github-helper.py'' = ''my'' @ ''.git'' @ ''hub-helper.py''" by simp
  ultimately have h: "\<exists>p \<in> set excludePatterns. \<exists>a b. ''my.github-helper.py'' = a @ p @ b"
    by blast
  have e: "endsWith ''my.github-helper.py'' ''.py''" by (simp add: endsWith_def)
  from collectTools_excludes_by_substring [OF h,
         of "[(''my.github-helper.py'', IsFile ''print(1)'')]" Map.empty]
  show ?thesis using h e by simp
qed

text \<open>
  C5. The agent is run at most twice. A second run, with the fallback model, is made
  exactly when the image is ready, a fallback model is configured and the primary run
  resolved with an output that matches a refusal signature. Without a fallback model there
  is at most the one attempt, and its exit code ends the job. When the fallback run is
  made, its exit code ends the job whatever its output is: a refusal there is not retried.
\<close>

theorem at_most_one_retry:
  "length (attempts (cli_main d spawn cfg ws st)) \<le> 2
   \<and> (length (attempts (cli_main d spawn cfg ws st)) = 2 \<longleftrightarrow> retries d spawn cfg)
   \<and> (retryModelName cfg = [] \<longrightarrow> length (attempts (cli_main d spawn cfg ws st)) \<le> 1)
   \<and> (ensureDockerImage d \<and> \<not> retries d spawn cfg \<and> primary_run spawn cfg = Some r1 \<longrightarrow>
        attempts (cli_main d spawn cfg ws st) = [''openrouter/'' @ modelName cfg] \<and>
        exit_status (cli_main d spawn cfg ws st) = Some (exitCode r1))
   \<and> (retries d spawn cfg \<and> fallback_run spawn cfg = Some r2 \<longrightarrow>
        attempts (cli_main d spawn cfg ws st) =
          [''openrouter/'' @ modelName cfg, ''openrouter/'' @ retryModelName cfg] \<and>
        exit_status (cli_main d spawn cfg ws st) = Some (exitCode r2))"
  by (auto simp: cli_main_cases cli_finish_attempts cli_finish_exit retries_def
           split: option.splits)

theorem at_most_one_retry_witness:
  "retries sample_docker refusing_spawn sample_config
   \<and> fallback_run refusing_spawn sample_config
        = Some \<lparr>exitCode = 1, outputText = ''I must decline''\<rparr>
   \<and> detectRefusal ''I must decline''
   \<and> attempts (cli_main sample_docker refusing_spawn sample_config [] Map.empty)
        = [''openrouter/a/b'', ''openrouter/c/d'']
   \<and> exit_status (cli_main sample_docker refusing_spawn sample_config [] Map.empty) = Some 1"
proof -
  have r: "retries sample_docker refusing_spawn sample_config" by code_simp
  have f: "fallback_run refusing_spawn sample_config
             = Some \<lparr>exitCode = 1, outputText = ''I must decline''\<rparr>" by code_simp
  have d: "detectRefusal ''I must decline''" by code_simp
  have m: "modelName sample_config = ''a/b''" "retryModelName sample_config = ''c/d''"
    by (simp_all add: sample_config_def)
  from at_most_one_retry [of sample_docker refusing_spawn sample_config "[]" Map.empty
                             "\<lparr>exitCode = 0, outputText = []\<rparr>"
                             "\<lparr>exitCode = 1, outputText = ''I must decline''\<rparr>"]
  show ?thesis using r f d m by simp
qed





text \<open>
  C1. On the sample run that hits the timeout, \<open>runDocker\<close> sends one \<open>SIGTERM\<close> and,
  once the child closes, resolves with exit code 0 and the output so far: the same result
  as a run that printed the same and exited with 0. While the child does not close the
  promise stays unresolved. The command-line job then harvests and exits with 0.
\<close>

theorem timeout_reported_as_success:
  "sigterms (run_events timed_out_events) = 1
   \<and> resolved (run_events timed_out_events) = Some \<lparr>exitCode = 0, outputText = ''working''\<rparr>
   \<and> resolved (run_events [StdoutData ''working'', Close (Some 0)])
        = Some \<lparr>exitCode = 0, outputText = ''working''\<rparr>
   \<and> resolved (run_events [StdoutData ''working'', TimerFires]) = None
   \<and> harvested (cli_main sample_docker timed_out_spawn sample_config [] Map.empty)
   \<and> exit_status (cli_main sample_docker timed_out_spawn sample_config [] Map.empty) = Some 0"
proof -
  have a: "sigterms (run_events timed_out_events) = 1"
    by (simp add: run_events_def run_init_def timed_out_events_def resolve_def code_or_0_def)
  have b: "resolved (run_events timed_out_events) = Some \<lparr>exitCode = 0, outputText = ''working''\<rparr>"
    by (simp add: run_events_def run_init_def timed_out_events_def resolve_def code_or_0_def)
  have c: "resolved (run_events [StdoutData ''working'', Close (Some 0)])
        = Some \<lparr>exitCode = 0, outputText = ''working''\<rparr>"
    by (simp add: run_events_def run_init_def resolve_def code_or_0_def)
  have d: "resolved (run_events [StdoutData ''working'', TimerFires]) = None"
    by (simp add: run_events_def run_init_def resolve_def code_or_0_def)
  have e: "harvested (cli_main sample_docker timed_out_spawn sample_config [] Map.empty)
   \<and> exit_status (cli_main sample_docker timed_out_spawn sample_config [] Map.empty) = Some 0"
    using cli_last [OF sample_image_ready timed_out_last_events] by simp
  show ?thesis using a b c d e by simp
qed





text \<open>
  C8, as the code has it. Creating a record on a ledger file that does not parse treats
  the collection as empty and overwrites the file with the one new record. Updating a
  record on such a file does not fail the runner, but it only logs the error and writes
  nothing: the file is the same after the runner as before.
\<close>

theorem malformed_ledger_create_recovers_update_skips:
  "(sub_prompt v \<noteq> [] \<and> sub_dir_exists v \<longrightarrow>
      sub_ledger (handleSubmit v (Some Unparseable)) = Some (TaskArray [TaskEntry (newTask v)]) \<and>
      sub_trace (handleSubmit v (Some Unparseable)) =
        [ToastAnimated ''Starting Agent...'', WriteLedger [TaskEntry (newTask v)],
         ToastSuccess ''Agent started''] \<and>
      sub_started (handleSubmit v (Some Unparseable)))
   \<and> updateTask tid (Some Unparseable) s e =
        (Some Unparseable, [LogLine ''Failed to update task: SyntaxError''])
   \<and> r_ledger (runnerMain env cfg (Some Unparseable) st) = Some Unparseable"
  by (simp add: handleSubmit_def createTask_def updateTask_unparseable runnerMain_unparseable)

theorem malformed_ledger_create_recovers_update_skips_witness:
  "sub_prompt sample_submission \<noteq> [] \<and> sub_dir_exists sample_submission
   \<and> sub_ledger (handleSubmit sample_submission (Some Unparseable))
       = Some (TaskArray [TaskEntry (newTask sample_submission)])
   \<and> sub_started (handleSubmit sample_submission (Some Unparseable))"
proof -
  have a: "sub_prompt sample_submission \<noteq> []" by (simp add: sample_submission_def)
  have b: "sub_dir_exists sample_submission" by (simp add: sample_submission_def)
  from malformed_ledger_create_recovers_update_skips
         [of sample_submission "''1''" "''completed''" 7 timeout_env sample_runner_config Map.empty]
  show ?thesis using a b by blast
qed

text \<open>
  C8, as stated, fails for the update: on a ledger file that does not parse, \<open>updateTask\<close>
  leaves the file as it is and logs the failure.
\<close>

theorem update_leaves_malformed_ledger:
  "fst (updateTask ''1700000000000'' (Some Unparseable) ''completed'' 1700000600000)
     = Some Unparseable
   \<and> snd (updateTask ''1700000000000'' (Some Unparseable) ''completed'' 1700000600000)
     = [LogLine ''Failed to update task: SyntaxError'']"
  by (simp add: updateTask_def)

text \<open>
  C4. On the reference sandbox, pushing a local file to a remote path and then pulling
  that remote path back writes the same bytes to the local target, for every content: the
  push succeeds and the pull leaves the content under the target name. The encoded text of
  45000 bytes is exactly one chunk, that of 45001 bytes one chunk and four characters.
\<close>

theorem push_then_pull_is_identity:
  assumes "lfs lcl = Some bytes"
  shows "\<exists>fs'. pushFile sandbox_shell lfs (lcl, remote) fs = Inr fs'
              \<and> pullFile sandbox_shell (remote, lcl') lfs fs' = Inr (lfs(lcl' \<mapsto> bytes), fs')"
proof -
  obtain fs' where p: "pushFile sandbox_shell lfs (lcl, remote) fs = Inr fs'"
    and r: "fs' remote = Some bytes"
    using pushFile_writes [where lfs = lfs and lcl = lcl and bytes = bytes and remote = remote
                             and fs = fs] assms
    by blast
  from pullFile_reads [where fs = fs' and remote = remote and bytes = bytes and lcl = lcl'
                         and lfs = lfs] r p
  show ?thesis by blast
qed

theorem push_then_pull_is_identity_witness:
  "(\<exists>fs'. pushFile sandbox_shell [''in.bin'' \<mapsto> []] (''in.bin'', ''/tmp/in.bin'') Map.empty = Inr fs'
       \<and> pullFile sandbox_shell (''/tmp/in.bin'', ''out.bin'') [''in.bin'' \<mapsto> []] fs'
           = Inr ([''in.bin'' \<mapsto> [], ''out.bin'' \<mapsto> []], fs'))
   \<and> (\<exists>fs'. pushFile sandbox_shell [''in.bin'' \<mapsto> ''x''] (''in.bin'', ''/tmp/in.bin'') Map.empty = Inr fs'
       \<and> pullFile sandbox_shell (''/tmp/in.bin'', ''out.bin'') [''in.bin'' \<mapsto> ''x''] fs'
           = Inr ([''in.bin'' \<mapsto> ''x'', ''out.bin'' \<mapsto> ''x''], fs'))
   \<and> length (toBase64 (replicate 45000 (CHR ''x''))) = CHUNK_SIZE
   \<and> (\<exists>fs'. pushFile sandbox_shell [''in.bin'' \<mapsto> replicate 45000 (CHR ''x'')]
              (''in.bin'', ''/tmp/in.bin'') Map.empty = Inr fs'
       \<and> pullFile sandbox_shell (''/tmp/in.bin'', ''out.bin'')
              [''in.bin'' \<mapsto> replicate 45000 (CHR ''x'')] fs'
           = Inr ([''in.bin'' \<mapsto> replicate 45000 (CHR ''x''),
                   ''out.bin'' \<mapsto> replicate 45000 (CHR ''x'')], fs'))
   \<and> length (toBase64 (replicate 45001 (CHR ''x''))) = CHUNK_SIZE + 4
   \<and> (\<exists>fs'. pushFile sandbox_shell [''in.bin'' \<mapsto> replicate 45001 (CHR ''x'')]
              (''in.bin'', ''/tmp/in.bin'') Map.empty = Inr fs'
       \<and> pullFile sandbox_shell (''/tmp/in.bin'', ''out.bin'')
              [''in.bin'' \<mapsto> replicate 45001 (CHR ''x'')] fs'
           = Inr ([''in.bin'' \<mapsto> replicate 45001 (CHR ''x''),
                   ''out.bin'' \<mapsto> replicate 45001 (CHR ''x'')], fs'))"
proof -
  have h: "\<And>b. [''in.bin'' \<mapsto> b] ''in.bin'' = Some (b :: string)" by simp
  note t = push_then_pull_is_identity
             [where lcl = "''in.bin''" and remote = "''/tmp/in.bin''" and fs = Map.empty
                and lcl' = "''out.bin''"]
  show ?thesis
    using t [where lfs = "[''in.bin'' \<mapsto> []]" and bytes = "[]"]
          t [where lfs = "[''in.bin'' \<mapsto> ''x'']" and bytes = "''x''"]
          t [where lfs = "[''in.bin'' \<mapsto> replicate 45000 (CHR ''x'')]"
               and bytes = "replicate 45000 (CHR ''x'')"]
          t [where lfs = "[''in.bin'' \<mapsto> replicate 45001 (CHR ''x'')]"
               and bytes = "replicate 45001 (CHR ''x'')"]
          one_chunk_sizes(3,4) h
    by simp
qed

text \<open>
  C3. On a provider whose commands fail, a job of the sandbox helper without the keep
  flag whose command, file push or file pull fails ends with the sandbox created and
  \<open>sandbox.delete()\<close> never called; the call is made when nothing fails. The runner
  script deletes the sandbox when the agent command fails, but not when an upload fails.
\<close>

theorem failure_skips_sandbox_delete:
  "\<not> o_keep plain_options
   \<and> m_created (daytona_main failing_provider (plain_options\<lparr>o_cmd := Some ''exit 1''\<rparr>) Map.empty)
   \<and> m_error (daytona_main failing_provider (plain_options\<lparr>o_cmd := Some ''exit 1''\<rparr>) Map.empty)
       = Some CommandFailed
   \<and> \<not> m_delete_called
         (daytona_main failing_provider (plain_options\<lparr>o_cmd := Some ''exit 1''\<rparr>) Map.empty)
   \<and> m_error (daytona_main failing_provider
                (plain_options\<lparr>o_push := [(''a.txt'', ''/tmp/a.txt'')]\<rparr>) [''a.txt'' \<mapsto> ''hi''])
       = Some (PushFailed ''a.txt'')
   \<and> \<not> m_delete_called
         (daytona_main failing_provider
            (plain_options\<lparr>o_push := [(''a.txt'', ''/tmp/a.txt'')]\<rparr>) [''a.txt'' \<mapsto> ''hi''])
   \<and> m_error (daytona_main failing_provider
                (plain_options\<lparr>o_pull := [(''/tmp/a.txt'', ''a.out'')]\<rparr>) Map.empty)
       = Some (PullFailed ''/tmp/a.txt'')
   \<and> \<not> m_delete_called
         (daytona_main failing_provider
            (plain_options\<lparr>o_pull := [(''/tmp/a.txt'', ''a.out'')]\<rparr>) Map.empty)
   \<and> m_delete_called (daytona_main failing_provider plain_options Map.empty)
   \<and> dr_delete_called (remoteRunnerMain failing_provider plain_job)
   \<and> dr_exit (remoteRunnerMain failing_provider plain_job) = 1
   \<and> \<not> dr_delete_called
         (remoteRunnerMain failing_provider (plain_job\<lparr>job_files := [(''a.txt'', ''aGk='')]\<rparr>))"
proof -
  have u: "uploadFile (exec failing_provider) (CONTEXT_DIR @ ''/a.txt'') ''aGk='' ()
             = Inl (PushFailed (CONTEXT_DIR @ ''/a.txt''))"
    by (simp add: uploadFile_def Let_def failing_provider_def pushChunks_fails code_response)
  have r1: "remoteRunnerMain failing_provider plain_job =
              \<lparr>dr_created = True, dr_delete_called = True, dr_status = ''failed'', dr_exit = 1\<rparr>"
    by (simp add: remoteRunnerMain_def plain_job_def failing_provider_def code_response Let_def)
  have r2: "remoteRunnerMain failing_provider (plain_job\<lparr>job_files := [(''a.txt'', ''aGk='')]\<rparr>) =
              \<lparr>dr_created = True, dr_delete_called = False, dr_status = ''failed'', dr_exit = 1\<rparr>"
    using u by (simp add: remoteRunnerMain_def plain_job_def Let_def) (simp add: failing_provider_def)
  have c: "daytona_main failing_provider (plain_options\<lparr>o_cmd := Some ''exit 1''\<rparr>) Map.empty
             = failed True CommandFailed Map.empty"
    by (simp add: daytona_main_def plain_options_def failing_provider_def runCmd_def
          code_def response_def Let_def)
  have p: "daytona_main failing_provider
             (plain_options\<lparr>o_push := [(''a.txt'', ''/tmp/a.txt'')]\<rparr>) [''a.txt'' \<mapsto> ''hi'']
             = failed True (PushFailed ''a.txt'') [''a.txt'' \<mapsto> ''hi'']"
    using failing_push
    by (simp add: daytona_main_def plain_options_def) (simp add: failing_provider_def)
  have l: "daytona_main failing_provider
             (plain_options\<lparr>o_pull := [(''/tmp/a.txt'', ''a.out'')]\<rparr>) Map.empty
             = failed True (PullFailed ''/tmp/a.txt'') Map.empty"
    by (simp add: daytona_main_def plain_options_def failing_provider_def runCmd_def
          pullFile_def code_response Let_def)
  have k: "m_delete_called (daytona_main failing_provider plain_options Map.empty)"
    by (simp add: daytona_main_def plain_options_def failing_provider_def runCmd_def)
  have n: "\<not> o_keep plain_options" by (simp add: plain_options_def)
  show ?thesis by (simp add: c p l k n r1 r2) (simp add: failed_def)
qed

end
